theory Spec2Isabelle
  imports Main "HOL-Library.Log_Nat" "HOL-Library.Multiset"
begin

section \<open>Python floats\<close>

text \<open>
  The \<^verbatim>\<open>Float\<close> column holds Python floats, which are IEEE 754 binary64 numbers, and
  SQLite stores them unchanged as 8-byte REAL values. A finite double is modelled by the
  rational number it denotes. Every arithmetic operation computes the exact rational
  result and rounds it to the nearest double, ties to even (\<open>round_double\<close>): 53
  significant bits, and a fixed quantum of \<open>2^-1074\<close> below \<open>2^-1022\<close>. Results of
  magnitude \<open>2^1024\<close> and above (IEEE infinities) and NaN are not modelled; no price of
  the seed data and no sum of them comes near that range.
\<close>

definition pow2 :: "int \<Rightarrow> rat" where
  "pow2 k = (if 0 \<le> k then 2 ^ nat k else 1 / 2 ^ nat (- k))"

definition ilog2 :: "rat \<Rightarrow> int" where
  \<comment> \<open>for \<open>0 < x\<close>: the integer \<open>e\<close> with \<open>2^e \<le> x < 2^(e+1)\<close>\<close>
  "ilog2 x = (if 1 \<le> x then bitlen \<lfloor>x\<rfloor> - 1 else - bitlen (\<lceil>1 / x\<rceil> - 1))"

definition round_half_even :: "rat \<Rightarrow> int" where
  "round_half_even x =
     (let f = \<lfloor>x\<rfloor>; d = x - of_int f
      in if d < 1 / 2 then f else if 1 / 2 < d then f + 1 else if even f then f else f + 1)"

definition round_double :: "rat \<Rightarrow> rat" where
  "round_double x =
     (if x = 0 then 0
      else let e = max (ilog2 \<bar>x\<bar>) (- 1022); q = pow2 (e - 52)
           in of_int (round_half_even (x / q)) * q)"

definition float_lit :: "rat \<Rightarrow> rat" where
  \<comment> \<open>a decimal literal of the source text, such as \<^verbatim>\<open>699.99\<close>\<close>
  "float_lit d = round_double d"

definition fadd :: "rat \<Rightarrow> rat \<Rightarrow> rat" where
  \<comment> \<open>\<^verbatim>\<open>a + b\<close> on floats; the int \<^verbatim>\<open>0\<close> a sum starts from converts to \<^verbatim>\<open>0.0\<close> exactly\<close>
  "fadd a b = round_double (a + b)"

definition fsub :: "rat \<Rightarrow> rat \<Rightarrow> rat" where
  "fsub a b = round_double (a - b)"

section \<open>Schema: the tables \<^verbatim>\<open>categories\<close> and \<^verbatim>\<open>products\<close>\<close>

record Category =
  category_id :: int
  category_name :: string

text \<open>The field \<open>product_category_id\<close> is the column \<^verbatim>\<open>Product.category_id\<close>.\<close>

record Product =
  product_id :: int
  product_name :: string
  price :: rat
  product_category_id :: int

text \<open>
  The SQLite file \<^verbatim>\<open>database_forge.db\<close>: the rows of its two tables. SQL leaves the
  order in which a SELECT without ORDER BY delivers rows to the engine, and so does
  SQLite's documentation. The model therefore asserts no such order: a table is the list
  of its rows in the order in which the engine's scan delivers them
  (\<open>scan_categories\<close>, \<open>scan_products\<close>), and that order is part of the store's
  state. An inserted row is taken to come last in it, as it does in the rowid order of
  stock SQLite, where the new rowid is the largest.
\<close>

record database =
  categories_table :: "Category list"
  products_table :: "Product list"

datatype error = IntegrityError | KeyError string | ZeroDivisionError | AttributeError

definition scan_categories :: "database \<Rightarrow> Category list" where
  "scan_categories db = categories_table db"

definition scan_products :: "database \<Rightarrow> Product list" where
  "scan_products db = products_table db"

definition next_rowid :: "int list \<Rightarrow> int" where
  \<comment> \<open>SQLite: one more than the largest rowid in use, 1 in an empty table
      (the random choice after rowid \<open>2^63 - 1\<close> is not modelled)\<close>
  "next_rowid ids = (case ids of [] \<Rightarrow> 1 | i # rest \<Rightarrow> fold max rest i + 1)"

text \<open>
  \<^verbatim>\<open>INSERT INTO categories (category_name) VALUES (?)\<close>, once per pending object in the
  order they were added. The \<^verbatim>\<open>unique=True\<close> constraint on \<^verbatim>\<open>category_name\<close> rejects a
  name that is already there (\<^verbatim>\<open>sqlalchemy.exc.IntegrityError\<close>).
\<close>

fun insert_categories :: "string list \<Rightarrow> database \<Rightarrow> error + (Category list \<times> database)" where
  "insert_categories [] db = Inr ([], db)"
| "insert_categories (cat_name # rest) db =
     (if cat_name \<in> set (map category_name (categories_table db)) then Inl IntegrityError
      else
        let category = \<lparr>category_id = next_rowid (map category_id (categories_table db)),
                         category_name = cat_name\<rparr>
        in case insert_categories rest (db\<lparr>categories_table := categories_table db @ [category]\<rparr>) of
             Inl e \<Rightarrow> Inl e
           | Inr (cs, db') \<Rightarrow> Inr (category # cs, db'))"

text \<open>
  \<^verbatim>\<open>INSERT INTO products (product_name, price, category_id) VALUES (?, ?, ?)\<close>. Nothing
  rejects a row: SQLite does not check foreign keys unless \<^verbatim>\<open>PRAGMA foreign_keys\<close> is
  switched on, which this program never does.
\<close>

fun insert_products :: "(string \<times> rat \<times> int) list \<Rightarrow> database \<Rightarrow> Product list \<times> database" where
  "insert_products [] db = ([], db)"
| "insert_products ((prod_name, pr, cat_id) # rest) db =
     (let product = \<lparr>product_id = next_rowid (map product_id (products_table db)),
                      product_name = prod_name, price = pr, product_category_id = cat_id\<rparr>
      in case insert_products rest (db\<lparr>products_table := products_table db @ [product]\<rparr>) of
           (ps, db') \<Rightarrow> (product # ps, db'))"

section \<open>The SQLAlchemy session\<close>

text \<open>
  A session holds the rows as committed (\<open>committed\<close>, what the file keeps when the
  process ends), the rows as the open transaction sees them (\<open>working\<close>), and the
  objects handed to \<^verbatim>\<open>session.add\<close> that no INSERT has written yet. A pending
  \<^verbatim>\<open>Category\<close> has no id; the store assigns it at the INSERT.
\<close>

record session =
  committed :: database
  working :: database
  new_categories :: "string list"
  new_products :: "(string \<times> rat \<times> int) list"

type_synonym 'a action = "session \<Rightarrow> (error + 'a) \<times> session"

definition Session :: "database \<Rightarrow> session" where
  \<comment> \<open>\<^verbatim>\<open>sessionmaker(bind=engine)()\<close>\<close>
  "Session db = \<lparr>committed = db, working = db, new_categories = [], new_products = []\<rparr>"

definition ok :: "'a \<Rightarrow> 'a action" where
  "ok x s = (Inr x, s)"

definition raise :: "error \<Rightarrow> 'a action" where
  "raise e s = (Inl e, s)"

definition seq :: "'a action \<Rightarrow> ('a \<Rightarrow> 'b action) \<Rightarrow> 'b action" where
  \<comment> \<open>one statement after another; an exception skips the rest\<close>
  "seq m f s = (case m s of (Inl e, s') \<Rightarrow> (Inl e, s') | (Inr x, s') \<Rightarrow> f x s')"

definition session_add_category :: "string \<Rightarrow> session \<Rightarrow> session" where
  "session_add_category cat_name s = s\<lparr>new_categories := new_categories s @ [cat_name]\<rparr>"

definition session_add_product :: "string \<times> rat \<times> int \<Rightarrow> session \<Rightarrow> session" where
  "session_add_product product s = s\<lparr>new_products := new_products s @ [product]\<rparr>"

text \<open>
  The flush writes the pending objects: categories before products (the unit of work
  orders the two mappers by the foreign key), each kind in the order it was added. It
  returns the rows written, which are the objects with their ids. When an INSERT fails
  the transaction is rolled back and the pending objects are dropped.
\<close>

definition session_flush :: "(Category list \<times> Product list) action" where
  "session_flush s =
     (case insert_categories (new_categories s) (working s) of
        Inl e \<Rightarrow> (Inl e, s\<lparr>working := committed s, new_categories := [], new_products := []\<rparr>)
      | Inr (cs, db) \<Rightarrow>
          (case insert_products (new_products s) db of
             (ps, db') \<Rightarrow>
               (Inr (cs, ps), s\<lparr>working := db', new_categories := [], new_products := []\<rparr>)))"

definition session_commit :: "(Category list \<times> Product list) action" where
  "session_commit s =
     (case session_flush s of
        (Inl e, s') \<Rightarrow> (Inl e, s')
      | (Inr objs, s') \<Rightarrow> (Inr objs, s'\<lparr>committed := working s'\<rparr>))"

definition session_close :: "session \<Rightarrow> session" where
  \<comment> \<open>releases the connection; what was not committed is rolled back\<close>
  "session_close s = s\<lparr>working := committed s, new_categories := [], new_products := []\<rparr>"

definition session_query :: "(database \<Rightarrow> 'a) \<Rightarrow> 'a action" where
  \<comment> \<open>\<^verbatim>\<open>session.query(...)\<close>: the session flushes first (autoflush), then the SELECT runs\<close>
  "session_query q = seq session_flush (\<lambda>_ s. (Inr (q (working s)), s))"

subsection \<open>The SELECT statements of the program\<close>

definition all_categories :: "database \<Rightarrow> Category list" where
  \<comment> \<open>\<^verbatim>\<open>session.query(Category).all()\<close>\<close>
  "all_categories db = scan_categories db"

definition count_categories :: "database \<Rightarrow> nat" where
  \<comment> \<open>\<^verbatim>\<open>session.query(Category).count()\<close>\<close>
  "count_categories db = length (scan_categories db)"

definition count_products :: "database \<Rightarrow> nat" where
  \<comment> \<open>\<^verbatim>\<open>session.query(Product).count()\<close>\<close>
  "count_products db = length (scan_products db)"

definition products_filter_by :: "int \<Rightarrow> database \<Rightarrow> Product list" where
  \<comment> \<open>\<^verbatim>\<open>session.query(Product).filter_by(category_id=...).all()\<close>\<close>
  "products_filter_by cat_id db = filter (\<lambda>p. product_category_id p = cat_id) (scan_products db)"

definition all_prices :: "database \<Rightarrow> rat list" where
  \<comment> \<open>\<^verbatim>\<open>session.query(Product).with_entities(Product.price).all()\<close>\<close>
  "all_prices db = map price (scan_products db)"

definition first_row :: "'a list \<Rightarrow> 'a option" where
  \<comment> \<open>\<^verbatim>\<open>.first()\<close>: the first row, \<^verbatim>\<open>None\<close> when there is no row\<close>
  "first_row rows = (case rows of [] \<Rightarrow> None | r # _ \<Rightarrow> Some r)"

text \<open>
  \<^verbatim>\<open>ORDER BY price\<close> is modelled by a stable sort of the scan, so that rows of equal
  price keep their scan order. (SQL leaves the order of ties open; the results below that
  name a most or least expensive product state that no other row shares its price.)
\<close>

definition first_price_desc :: "database \<Rightarrow> Product option" where
  \<comment> \<open>\<^verbatim>\<open>session.query(Product).order_by(Product.price.desc()).first()\<close>\<close>
  "first_price_desc db = first_row (sort_key (\<lambda>p. - price p) (scan_products db))"

definition first_price_asc :: "database \<Rightarrow> Product option" where
  \<comment> \<open>\<^verbatim>\<open>session.query(Product).order_by(Product.price.asc()).first()\<close>\<close>
  "first_price_asc db = first_row (sort_key price (scan_products db))"

definition join_products_categories :: "database \<Rightarrow> (Product \<times> Category) list" where
  \<comment> \<open>\<^verbatim>\<open>session.query(Product, Category).join(Category).all()\<close>: the inner join on
      \<^verbatim>\<open>categories.category_id = products.category_id\<close>\<close>
  "join_products_categories db =
     concat (map (\<lambda>p. map (Pair p) (filter (\<lambda>c. category_id c = product_category_id p)
                                           (scan_categories db)))
                 (scan_products db))"

section \<open>\<^verbatim>\<open>create_database\<close>\<close>

definition create_database :: "database option \<Rightarrow> database" where
  \<comment> \<open>\<^verbatim>\<open>create_all\<close> creates the tables a file lacks and leaves existing ones alone;
      \<open>None\<close> is the file that does not exist yet\<close>
  "create_database file =
     (case file of None \<Rightarrow> \<lparr>categories_table = [], products_table = []\<rparr> | Some db \<Rightarrow> db)"

section \<open>\<^verbatim>\<open>populate_sample_data\<close>\<close>

definition categories_data :: "string list" where
  "categories_data =
     [''Electronics'', ''Clothing'', ''Books'', ''Home & Garden'', ''Sports & Outdoors'']"

definition products_data :: "(string \<times> rat \<times> string) list" where
  "products_data =
     [(''Smartphone'', float_lit (69999 / 100), ''Electronics''),
      (''Laptop'', float_lit (129999 / 100), ''Electronics''),
      (''Wireless Headphones'', float_lit (14999 / 100), ''Electronics''),
      (''Smart TV'', float_lit (59999 / 100), ''Electronics''),
      (''T-Shirt'', float_lit (1999 / 100), ''Clothing''),
      (''Jeans'', float_lit (5999 / 100), ''Clothing''),
      (''Running Shoes'', float_lit (8999 / 100), ''Clothing''),
      (''Winter Jacket'', float_lit (12999 / 100), ''Clothing''),
      (''Python Programming Book'', float_lit (3999 / 100), ''Books''),
      (''Data Science Handbook'', float_lit (4999 / 100), ''Books''),
      (''Science Fiction Novel'', float_lit (1499 / 100), ''Books''),
      (''Garden Hose'', float_lit (2499 / 100), ''Home & Garden''),
      (''Lawn Mower'', float_lit (29999 / 100), ''Home & Garden''),
      (''Plant Pot Set'', float_lit (3499 / 100), ''Home & Garden''),
      (''Basketball'', float_lit (2999 / 100), ''Sports & Outdoors''),
      (''Camping Tent'', float_lit (15999 / 100), ''Sports & Outdoors''),
      (''Yoga Mat'', float_lit (2499 / 100), ''Sports & Outdoors'')]"

text \<open>
  Lines 72 to 79: one \<^verbatim>\<open>Category\<close> per name is added to the session, then
  \<^verbatim>\<open>session.commit()\<close>. The result is the list \<^verbatim>\<open>categories\<close> of the source: the objects
  this function created, now carrying the ids the store gave them (objects that were
  pending in the session before are flushed too, ahead of them).
\<close>

definition populate_categories :: "string list \<Rightarrow> Category list action" where
  "populate_categories names s =
     (let n0 = length (new_categories s)
      in seq session_commit (\<lambda>(cs, ps). ok (drop n0 cs)) (fold session_add_category names s))"

definition category_map_of :: "Category list \<Rightarrow> (string \<rightharpoonup> Category)" where
  \<comment> \<open>\<^verbatim>\<open>{cat.category_name: cat for cat in categories}\<close>\<close>
  "category_map_of categories = fold (\<lambda>cat m. m(category_name cat \<mapsto> cat)) categories Map.empty"

text \<open>
  Lines 107 to 115: the loop that constructs each \<^verbatim>\<open>Product\<close> and adds it to the
  session. \<^verbatim>\<open>category_map[cat_name]\<close> raises \<^verbatim>\<open>KeyError\<close> for a name the dict lacks.
\<close>

fun add_products :: "(string \<rightharpoonup> Category) \<Rightarrow> (string \<times> rat \<times> string) list \<Rightarrow> unit action" where
  "add_products category_map [] s = (Inr (), s)"
| "add_products category_map ((prod_name, pr, cat_name) # rest) s =
     (case category_map cat_name of
        None \<Rightarrow> (Inl (KeyError cat_name), s)
      | Some cat \<Rightarrow>
          add_products category_map rest (session_add_product (prod_name, pr, category_id cat) s))"

definition populate_products :: "Category list \<Rightarrow> (string \<times> rat \<times> string) list \<Rightarrow> unit action" where
  \<comment> \<open>lines 104 to 117\<close>
  "populate_products categories prods =
     seq (add_products (category_map_of categories) prods) (\<lambda>_. seq session_commit (\<lambda>_. ok ()))"

definition populate_from :: "string list \<Rightarrow> (string \<times> rat \<times> string) list \<Rightarrow> unit action" where
  \<comment> \<open>the body of \<^verbatim>\<open>populate_sample_data\<close>, for any two lists in place of the literals\<close>
  "populate_from names prods =
     seq (populate_categories names) (\<lambda>categories. populate_products categories prods)"

definition populate_sample_data :: "unit action" where
  "populate_sample_data = populate_from categories_data products_data"

section \<open>\<^verbatim>\<open>retrieve_and_display_data\<close>\<close>

text \<open>
  What the report prints, as values: the category listing, one section per category
  (its products and their total value), the overall statistics and the joined listing.
  The function prints as it goes; when an exception ends it, the lines already printed
  are not part of the model, only the exception is.
\<close>

record report =
  listing :: "Category list"
  sections :: "(Category \<times> Product list \<times> rat) list"
  total_products :: nat
  total_categories :: nat
  avg_price :: rat
  most_expensive :: Product
  least_expensive :: Product
  results :: "(Product \<times> Category) list"

definition total_value :: "Product list \<Rightarrow> rat" where
  \<comment> \<open>lines 145 to 148: \<^verbatim>\<open>total_value = 0\<close>, then \<^verbatim>\<open>total_value += product.price\<close>\<close>
  "total_value products_in_category =
     fold (\<lambda>product total. fadd total (price product)) products_in_category 0"

fun category_sections :: "Category list \<Rightarrow> (Category \<times> Product list \<times> rat) list action" where
  "category_sections [] s = (Inr [], s)"
| "category_sections (category # rest) s =
     (case session_query (products_filter_by (category_id category)) s of
        (Inl e, s') \<Rightarrow> (Inl e, s')
      | (Inr products_in_category, s') \<Rightarrow>
          (case category_sections rest s' of
             (Inl e, s'') \<Rightarrow> (Inl e, s'')
           | (Inr secs, s'') \<Rightarrow>
               (Inr ((category, products_in_category, total_value products_in_category) # secs),
                s'')))"

text \<open>
  The builtin \<^verbatim>\<open>sum\<close> depends on the interpreter. Up to CPython 3.11 it adds the
  items from the left, starting at the int 0. From CPython 3.12 on, once the running
  total is a float (here: after the first item is added to 0), the remaining floats are
  added with Neumaier's compensated summation: next to the total \<^verbatim>\<open>f_result\<close> it keeps
  the rounding errors in \<^verbatim>\<open>c\<close> and adds \<^verbatim>\<open>c\<close> to the total at the end, unless it is
  zero. The program runs on either, so the interpreter is a parameter of the report.
\<close>

datatype interpreter = Before_3_12 | From_3_12

fun neumaier :: "rat \<Rightarrow> rat \<Rightarrow> rat list \<Rightarrow> rat" where
  "neumaier f_result c [] = (if c \<noteq> 0 then fadd f_result c else f_result)"
| "neumaier f_result c (x # items) =
     (let t = fadd f_result x
      in neumaier t
           (if \<bar>x\<bar> \<le> \<bar>f_result\<bar> then fadd c (fadd (fsub f_result t) x)
            else fadd c (fadd (fsub x t) f_result))
           items)"

definition py_sum :: "interpreter \<Rightarrow> rat list \<Rightarrow> rat" where
  "py_sum py xs =
     (case py of
        Before_3_12 \<Rightarrow> fold (\<lambda>x total. fadd total x) xs 0
      | From_3_12 \<Rightarrow> (case xs of [] \<Rightarrow> 0 | x # items \<Rightarrow> neumaier (fadd 0 x) 0 items))"

definition py_truediv :: "rat \<Rightarrow> nat \<Rightarrow> rat action" where
  \<comment> \<open>\<^verbatim>\<open>a / n\<close>: a zero divisor raises \<^verbatim>\<open>ZeroDivisionError\<close>\<close>
  "py_truediv a n = (if n = 0 then raise ZeroDivisionError else ok (round_double (a / of_nat n)))"

definition attr_of :: "'a option \<Rightarrow> 'a action" where
  \<comment> \<open>reading an attribute of the result of \<^verbatim>\<open>.first()\<close>: \<^verbatim>\<open>None\<close> has none\<close>
  "attr_of x = (case x of None \<Rightarrow> raise AttributeError | Some v \<Rightarrow> ok v)"

text \<open>
  Lines 120 to 160: the category listing, the sections and the statistics up to the
  average, which line 160 computes by a division. \<open>rest\<close> stands for the statements
  that follow that division.
\<close>

definition report_to_average ::
  "interpreter \<Rightarrow>
   (Category list \<Rightarrow> (Category \<times> Product list \<times> rat) list \<Rightarrow> nat \<Rightarrow> nat \<Rightarrow> rat \<Rightarrow> 'a action) \<Rightarrow>
   'a action" where
  "report_to_average py rest =
     seq (session_query all_categories) (\<lambda>categories.
     seq (category_sections categories) (\<lambda>secs.
     seq (session_query count_products) (\<lambda>total_products.
     seq (session_query count_categories) (\<lambda>total_categories.
     seq (session_query all_prices) (\<lambda>average_price.
     seq (py_truediv (py_sum py average_price) (length average_price)) (\<lambda>avg_price.
     rest categories secs total_products total_categories avg_price))))))"

text \<open>Lines 162 to 186: the two \<^verbatim>\<open>ORDER BY price\<close> queries, the prints, the join.\<close>

definition report_from_extremes ::
  "Category list \<Rightarrow> (Category \<times> Product list \<times> rat) list \<Rightarrow> nat \<Rightarrow> nat \<Rightarrow> rat \<Rightarrow>
   report action" where
  "report_from_extremes = (\<lambda>categories secs total_products total_categories avg_price.
     seq (session_query first_price_desc) (\<lambda>most_expensive.
     seq (session_query first_price_asc) (\<lambda>least_expensive.
     seq (attr_of most_expensive) (\<lambda>most.
     seq (attr_of least_expensive) (\<lambda>least.
     seq (session_query join_products_categories) (\<lambda>results.
     ok \<lparr>listing = categories, sections = secs, total_products = total_products,
         total_categories = total_categories, avg_price = avg_price,
         most_expensive = most, least_expensive = least, results = results\<rparr>))))))"

definition retrieve_and_display_data :: "interpreter \<Rightarrow> report action" where
  "retrieve_and_display_data py = report_to_average py report_from_extremes"

section \<open>\<^verbatim>\<open>main\<close>\<close>

definition seed_if_empty :: "unit action" where
  \<comment> \<open>lines 199 to 205\<close>
  "seed_if_empty =
     seq (session_query count_categories) (\<lambda>existing_categories.
       if existing_categories = 0 then populate_sample_data else ok ())"

text \<open>
  One run of the program, on either interpreter, on the file as it is found. The second
  component is the file
  as the run leaves it: an exception ends the process, and what the session had not
  committed is lost.
\<close>

definition main :: "interpreter \<Rightarrow> database option \<Rightarrow> (error + report) \<times> database" where
  "main py file =
     (let engine = create_database file;
          session = Session engine
      in case seq seed_if_empty (\<lambda>_. retrieve_and_display_data py) session of
           (Inl e, s) \<Rightarrow> (Inl e, committed s)
         | (Inr r, s) \<Rightarrow> (Inr r, committed (session_close s)))"

text \<open>
  The files this program can produce: it starts from no file, and every run opens the
  file, seeds it when it has no category, and reports.
\<close>

inductive reachable :: "database \<Rightarrow> bool" where
  fresh: "reachable (create_database None)"
| reopen: "reachable db \<Longrightarrow> reachable (create_database (Some db))"
| seed: "reachable db \<Longrightarrow> reachable (committed (snd (seed_if_empty (Session db))))"
| report: "reachable db \<Longrightarrow>
    reachable (committed (snd (retrieve_and_display_data py (Session db))))"
| run: "reachable db \<Longrightarrow> reachable (snd (main py (Some db)))"

section \<open>The file after the first run\<close>

text \<open>
  The rows that seeding writes into a fresh file, written out. They are proved below to
  be what \<open>main\<close> leaves behind (\<open>main_fresh\<close>); results about the seeded store
  are stated against them.
\<close>

definition seeded_categories :: "Category list" where
  "seeded_categories =
     [\<lparr>category_id = 1, category_name = ''Electronics''\<rparr>,
      \<lparr>category_id = 2, category_name = ''Clothing''\<rparr>,
      \<lparr>category_id = 3, category_name = ''Books''\<rparr>,
      \<lparr>category_id = 4, category_name = ''Home & Garden''\<rparr>,
      \<lparr>category_id = 5, category_name = ''Sports & Outdoors''\<rparr>]"

definition seeded_products :: "Product list" where
  "seeded_products =
     [\<lparr>product_id = 1, product_name = ''Smartphone'', price = float_lit (69999 / 100), product_category_id = 1\<rparr>,
      \<lparr>product_id = 2, product_name = ''Laptop'', price = float_lit (129999 / 100), product_category_id = 1\<rparr>,
      \<lparr>product_id = 3, product_name = ''Wireless Headphones'', price = float_lit (14999 / 100), product_category_id = 1\<rparr>,
      \<lparr>product_id = 4, product_name = ''Smart TV'', price = float_lit (59999 / 100), product_category_id = 1\<rparr>,
      \<lparr>product_id = 5, product_name = ''T-Shirt'', price = float_lit (1999 / 100), product_category_id = 2\<rparr>,
      \<lparr>product_id = 6, product_name = ''Jeans'', price = float_lit (5999 / 100), product_category_id = 2\<rparr>,
      \<lparr>product_id = 7, product_name = ''Running Shoes'', price = float_lit (8999 / 100), product_category_id = 2\<rparr>,
      \<lparr>product_id = 8, product_name = ''Winter Jacket'', price = float_lit (12999 / 100), product_category_id = 2\<rparr>,
      \<lparr>product_id = 9, product_name = ''Python Programming Book'', price = float_lit (3999 / 100), product_category_id = 3\<rparr>,
      \<lparr>product_id = 10, product_name = ''Data Science Handbook'', price = float_lit (4999 / 100), product_category_id = 3\<rparr>,
      \<lparr>product_id = 11, product_name = ''Science Fiction Novel'', price = float_lit (1499 / 100), product_category_id = 3\<rparr>,
      \<lparr>product_id = 12, product_name = ''Garden Hose'', price = float_lit (2499 / 100), product_category_id = 4\<rparr>,
      \<lparr>product_id = 13, product_name = ''Lawn Mower'', price = float_lit (29999 / 100), product_category_id = 4\<rparr>,
      \<lparr>product_id = 14, product_name = ''Plant Pot Set'', price = float_lit (3499 / 100), product_category_id = 4\<rparr>,
      \<lparr>product_id = 15, product_name = ''Basketball'', price = float_lit (2999 / 100), product_category_id = 5\<rparr>,
      \<lparr>product_id = 16, product_name = ''Camping Tent'', price = float_lit (15999 / 100), product_category_id = 5\<rparr>,
      \<lparr>product_id = 17, product_name = ''Yoga Mat'', price = float_lit (2499 / 100), product_category_id = 5\<rparr>]"

definition seeded_database :: database where
  "seeded_database = \<lparr>categories_table = seeded_categories, products_table = seeded_products\<rparr>"

section \<open>Lemmas\<close>

subsection \<open>A session with nothing pending\<close>

lemma session_flush_clean:
  "session_flush (Session db) = (Inr ([], []), Session db)"
  by (simp add: session_flush_def Session_def)

lemma session_query_clean:
  "session_query q (Session db) = (Inr (q db), Session db)"
  by (simp add: session_query_def seq_def session_flush_clean) (simp add: Session_def)

lemma category_sections_clean:
  "category_sections cs (Session db) =
     (Inr (map (\<lambda>c. (c, products_filter_by (category_id c) db,
                        total_value (products_filter_by (category_id c) db))) cs),
      Session db)"
  by (induction cs) (simp_all add: session_query_clean)

lemma first_row_None: "first_row rows = None \<longleftrightarrow> rows = []"
  by (simp add: first_row_def split: list.splits)

lemma sort_key_Nil_iff: "sort_key f xs = [] \<longleftrightarrow> xs = []"
  by (metis length_0_conv length_sort)

lemma first_price_desc_None: "first_price_desc db = None \<longleftrightarrow> products_table db = []"
  by (simp add: first_price_desc_def first_row_None scan_products_def sort_key_Nil_iff)

lemma first_price_asc_None: "first_price_asc db = None \<longleftrightarrow> products_table db = []"
  by (simp add: first_price_asc_def first_row_None scan_products_def sort_key_Nil_iff)

lemma retrieve_clean_empty:
  "products_table db = [] \<Longrightarrow>
     retrieve_and_display_data py (Session db) = (Inl ZeroDivisionError, Session db)"
  by (simp add: retrieve_and_display_data_def report_to_average_def report_from_extremes_def seq_def session_query_clean
      category_sections_clean py_truediv_def raise_def all_prices_def scan_products_def)

lemma retrieve_clean_nonempty:
  assumes "products_table db \<noteq> []"
  shows "retrieve_and_display_data py (Session db) =
     (Inr \<lparr>listing = all_categories db,
           sections = map (\<lambda>c. (c, products_filter_by (category_id c) db,
                        total_value (products_filter_by (category_id c) db))) (all_categories db),
           total_products = count_products db,
           total_categories = count_categories db,
           avg_price = round_double (py_sum py (all_prices db) / of_nat (length (all_prices db))),
           most_expensive = the (first_price_desc db),
           least_expensive = the (first_price_asc db),
           results = join_products_categories db\<rparr>, Session db)"
proof -
  have n: "length (all_prices db) \<noteq> 0"
    using assms by (simp add: all_prices_def scan_products_def)
  obtain m where m: "first_price_desc db = Some m"
    using assms first_price_desc_None [of db] by (cases "first_price_desc db") auto
  obtain l where l: "first_price_asc db = Some l"
    using assms first_price_asc_None [of db] by (cases "first_price_asc db") auto
  show ?thesis
    using n by (simp add: retrieve_and_display_data_def report_to_average_def report_from_extremes_def seq_def session_query_clean
      category_sections_clean py_truediv_def ok_def attr_of_def m l)
qed

subsection \<open>What the INSERTs write\<close>

lemma insert_products_shape:
  "insert_products xs db = (ps, db') \<Longrightarrow>
     db' = db\<lparr>products_table := products_table db @ ps\<rparr> \<and>
     map (\<lambda>p. (product_name p, price p, product_category_id p)) ps = xs"
proof (induction xs arbitrary: db ps db')
  case Nil
  then show ?case by simp
next
  case (Cons x xs)
  obtain n pr c where x: "x = (n, pr, c)" by (cases x)
  define product where "product = \<lparr>product_id = next_rowid (map product_id (products_table db)),
      product_name = n, price = pr, product_category_id = c\<rparr>"
  define db1 where "db1 = db\<lparr>products_table := products_table db @ [product]\<rparr>"
  obtain ps1 db2 where r: "insert_products xs db1 = (ps1, db2)"
    by (cases "insert_products xs db1")
  have "ps = product # ps1" and "db' = db2"
    using Cons.prems r by (simp_all add: x Let_def product_def db1_def)
  moreover have "db2 = db1\<lparr>products_table := products_table db1 @ ps1\<rparr>"
    and "map (\<lambda>p. (product_name p, price p, product_category_id p)) ps1 = xs"
    using Cons.IH [OF r] by simp_all
  ultimately show ?case
    by (simp add: db1_def product_def x)
qed

lemma fold_add_category:
  "fold session_add_category names s = s\<lparr>new_categories := new_categories s @ names\<rparr>"
  by (induction names arbitrary: s) (simp_all add: session_add_category_def)

lemma insert_seed_categories:
  "categories_table db = [] \<Longrightarrow>
     insert_categories categories_data db = Inr (seeded_categories, db\<lparr>categories_table := seeded_categories\<rparr>)"
  by (simp add: categories_data_def seeded_categories_def next_rowid_def Let_def)

lemma populate_categories_seed:
  "categories_table db = [] \<Longrightarrow>
     populate_categories categories_data (Session db) =
       (Inr seeded_categories, Session (db\<lparr>categories_table := seeded_categories\<rparr>))"
  by (simp add: populate_categories_def fold_add_category seq_def session_commit_def
      session_flush_def Session_def insert_seed_categories ok_def)

lemma next_rowid_snoc: "next_rowid (ids @ [next_rowid ids]) = next_rowid ids + 1"
  by (cases ids) (simp_all add: next_rowid_def)

lemma insert_products_ids:
  "insert_products xs db = (ps, db') \<Longrightarrow>
     map product_id ps =
       map (\<lambda>i. next_rowid (map product_id (products_table db)) + int i) [0..<length xs]"
proof (induction xs arbitrary: db ps db')
  case Nil
  then show ?case by simp
next
  case (Cons x xs)
  obtain n pr c where x: "x = (n, pr, c)" by (cases x)
  define k where "k = next_rowid (map product_id (products_table db))"
  define product where "product = \<lparr>product_id = k,
      product_name = n, price = pr, product_category_id = c\<rparr>"
  define db1 where "db1 = db\<lparr>products_table := products_table db @ [product]\<rparr>"
  obtain ps1 db2 where r: "insert_products xs db1 = (ps1, db2)"
    by (cases "insert_products xs db1")
  have ps: "ps = product # ps1"
    using Cons.prems r by (simp add: x Let_def product_def db1_def k_def)
  have k1: "next_rowid (map product_id (products_table db1)) = k + 1"
    using next_rowid_snoc [of "map product_id (products_table db)"]
    by (simp add: db1_def product_def k_def)
  have "map product_id ps1 = map (\<lambda>i. k + 1 + int i) [0..<length xs]"
    using Cons.IH [OF r] by (simp add: k1)
  then show ?case
    by (simp add: ps product_def k_def [symmetric] map_upt_Suc del: upt_Suc)
qed

lemma product_rows_eqI:
  fixes ps qs :: "Product list"
  shows "map product_id ps = map product_id qs \<Longrightarrow>
     map (\<lambda>p. (product_name p, price p, product_category_id p)) ps =
     map (\<lambda>p. (product_name p, price p, product_category_id p)) qs \<Longrightarrow> ps = qs"
proof (induction ps arbitrary: qs)
  case Nil
  then show ?case by simp
next
  case (Cons p ps)
  then show ?case by (cases qs) auto
qed

lemma seeded_product_ids:
  "map product_id seeded_products = map (\<lambda>i. 1 + int i) [0..<length seeded_products]"
  by (simp add: seeded_products_def)

subsection \<open>Seeding\<close>

lemma add_products_seed:
  "add_products (category_map_of seeded_categories) products_data s =
     (Inr (), s\<lparr>new_products := new_products s @
         map (\<lambda>p. (product_name p, price p, product_category_id p)) seeded_products\<rparr>)"
  by (simp add: products_data_def category_map_of_def seeded_categories_def
      seeded_products_def session_add_product_def)

lemma populate_sample_data_general:
  assumes "categories_table db = []"
  shows "\<exists>ps. populate_sample_data (Session db) =
           (Inr (), Session \<lparr>categories_table = seeded_categories,
                             products_table = products_table db @ ps\<rparr>) \<and>
         map (\<lambda>p. (product_name p, price p, product_category_id p)) ps =
           map (\<lambda>p. (product_name p, price p, product_category_id p)) seeded_products \<and>
         map product_id ps =
           map (\<lambda>i. next_rowid (map product_id (products_table db)) + int i)
             [0..<length seeded_products]"
proof -
  define db1 where "db1 = db\<lparr>categories_table := seeded_categories\<rparr>"
  define xs where "xs = map (\<lambda>p. (product_name p, price p, product_category_id p)) seeded_products"
  obtain ps db2 where ins: "insert_products xs db1 = (ps, db2)"
    by (cases "insert_products xs db1")
  have shape: "db2 = db1\<lparr>products_table := products_table db1 @ ps\<rparr>"
    and names: "map (\<lambda>p. (product_name p, price p, product_category_id p)) ps = xs"
    using insert_products_shape [OF ins] by simp_all
  have ids: "map product_id ps =
      map (\<lambda>i. next_rowid (map product_id (products_table db)) + int i) [0..<length seeded_products]"
    using insert_products_ids [OF ins] by (simp add: db1_def xs_def)
  have "populate_sample_data (Session db) = (Inr (), Session db2)"
    using ins
    by (simp add: populate_sample_data_def populate_from_def seq_def
        populate_categories_seed [OF assms] populate_products_def add_products_seed
        session_commit_def session_flush_def ok_def db1_def [symmetric] xs_def [symmetric])
       (simp add: Session_def ok_def)
  moreover have "db2 = \<lparr>categories_table = seeded_categories,
                         products_table = products_table db @ ps\<rparr>"
    by (simp add: shape db1_def)
  ultimately show ?thesis using names ids by (auto simp: xs_def)
qed

lemma populate_sample_data_fresh:
  "populate_sample_data (Session \<lparr>categories_table = [], products_table = []\<rparr>) =
     (Inr (), Session seeded_database)"
proof -
  obtain ps where run: "populate_sample_data (Session \<lparr>categories_table = [], products_table = []\<rparr>) =
           (Inr (), Session \<lparr>categories_table = seeded_categories, products_table = ps\<rparr>)"
    and fields: "map (\<lambda>p. (product_name p, price p, product_category_id p)) ps =
           map (\<lambda>p. (product_name p, price p, product_category_id p)) seeded_products"
    and ids: "map product_id ps = map (\<lambda>i. 1 + int i) [0..<length seeded_products]"
    using populate_sample_data_general [of "\<lparr>categories_table = [], products_table = []\<rparr>"]
    by (auto simp: next_rowid_def)
  have "ps = seeded_products"
    using fields ids seeded_product_ids by (intro product_rows_eqI) simp_all
  then show ?thesis using run by (simp add: seeded_database_def)
qed

subsection \<open>The queries on the seeded file\<close>

lemma scan_seeded_categories: "scan_categories seeded_database = seeded_categories"
  by (simp add: scan_categories_def seeded_database_def seeded_categories_def)

lemma scan_seeded_products: "scan_products seeded_database = seeded_products"
  by (simp add: scan_products_def seeded_database_def seeded_products_def)

lemma seeded_prices:
  "map price seeded_products =
     [float_lit (69999 / 100), float_lit (129999 / 100), float_lit (14999 / 100),
      float_lit (59999 / 100), float_lit (1999 / 100), float_lit (5999 / 100),
      float_lit (8999 / 100), float_lit (12999 / 100), float_lit (3999 / 100),
      float_lit (4999 / 100), float_lit (1499 / 100), float_lit (2499 / 100),
      float_lit (29999 / 100), float_lit (3499 / 100), float_lit (2999 / 100),
      float_lit (15999 / 100), float_lit (2499 / 100)]"
  by (simp add: seeded_products_def)

subsection \<open>Evaluating float arithmetic\<close>

lemma bitlen_numeral: "bitlen (numeral n) = bitlen (numeral n div 2) + 1"
  by (subst compute_bitlen) simp

lemma bitlen_one: "bitlen 1 = 1"
  by (subst compute_bitlen) simp

lemma floor_rat_numeral: "\<lfloor>numeral a / numeral b :: rat\<rfloor> = numeral a div numeral b"
  using floor_divide_of_int_eq [of "numeral a" "numeral b", where ?'a = rat] by simp

lemmas double_eval = round_double_def ilog2_def pow2_def round_half_even_def Let_def
  bitlen_numeral bitlen_one floor_rat_numeral

lemma floor_rat_neg_numeral:
  "\<lfloor>- (numeral a / numeral b) :: rat\<rfloor> = - numeral a div numeral b"
  using floor_divide_of_int_eq [of "- numeral a" "numeral b", where ?'a = rat] by simp

lemma ceiling_rat_numeral:
  "\<lceil>numeral a / numeral b :: rat\<rceil> = - (- numeral a div numeral b)"
  by (simp add: ceiling_def floor_rat_neg_numeral)

lemmas double_eval2 = double_eval floor_rat_neg_numeral ceiling_rat_numeral

lemma seed_literal_values:
    "float_lit (69999 / 100) = 3078588577307689 / 4398046511104"
    "float_lit (129999 / 100) = 5717416483970089 / 4398046511104"
    "float_lit (14999 / 100) = 659662996200489 / 4398046511104"
    "float_lit (59999 / 100) = 2638783926197289 / 4398046511104"
    "float_lit (1999 / 100) = 5626684784446013 / 281474976710656"
    "float_lit (5999 / 100) = 8442841926436127 / 140737488355328"
    "float_lit (8999 / 100) = 6332483288547983 / 70368744177664"
    "float_lit (12999 / 100) = 571702065978409 / 4398046511104"
    "float_lit (3999 / 100) = 5628092159329567 / 140737488355328"
    "float_lit (4999 / 100) = 7035467042882847 / 140737488355328"
    "float_lit (1499 / 100) = 8438619801785467 / 562949953421312"
    "float_lit (2499 / 100) = 7034059667999293 / 281474976710656"
    "float_lit (29999 / 100) = 1319369972866089 / 4398046511104"
    "float_lit (3499 / 100) = 4924404717552927 / 140737488355328"
    "float_lit (2999 / 100) = 8441434551552573 / 281474976710656"
    "float_lit (15999 / 100) = 703643461311529 / 4398046511104"
  by (simp_all add: float_lit_def double_eval)

lemma seeded_sum:
  "py_sum Before_3_12
     [float_lit (69999 / 100), float_lit (129999 / 100), float_lit (14999 / 100),
      float_lit (59999 / 100), float_lit (1999 / 100), float_lit (5999 / 100),
      float_lit (8999 / 100), float_lit (12999 / 100), float_lit (3999 / 100),
      float_lit (4999 / 100), float_lit (1499 / 100), float_lit (2499 / 100),
      float_lit (29999 / 100), float_lit (3499 / 100), float_lit (2999 / 100),
      float_lit (15999 / 100), float_lit (2499 / 100)] = 4100991454627755 / 1099511627776"
  by (simp add: py_sum_def fadd_def float_lit_def double_eval)

lemma neumaier_step:
  assumes "k < length xs"
    and "Suc k = k'"
    and "fadd f (xs ! k) = t"
    and "(if \<bar>xs ! k\<bar> \<le> \<bar>f\<bar> then fadd c (fadd (fsub f t) (xs ! k))
          else fadd c (fadd (fsub (xs ! k) t) f)) = c'"
  shows "neumaier f c (drop k xs) = neumaier t c' (drop k' xs)"
proof -
  have "drop k xs = xs ! k # drop k' xs"
    using assms(1,2) by (auto simp: Cons_nth_drop_Suc)
  then show ?thesis
    using assms(3,4) by (simp add: Let_def)
qed

lemma neumaier_seed_prices:
  "neumaier (3078588577307689 / 4398046511104) 0
     (drop 1
     [3078588577307689 / 4398046511104,
      5717416483970089 / 4398046511104,
      659662996200489 / 4398046511104,
      2638783926197289 / 4398046511104,
      5626684784446013 / 281474976710656,
      8442841926436127 / 140737488355328,
      6332483288547983 / 70368744177664,
      571702065978409 / 4398046511104,
      5628092159329567 / 140737488355328,
      7035467042882847 / 140737488355328,
      8438619801785467 / 562949953421312,
      7034059667999293 / 281474976710656,
      1319369972866089 / 4398046511104,
      4924404717552927 / 140737488355328,
      8441434551552573 / 281474976710656,
      703643461311529 / 4398046511104,
      7034059667999293 / 281474976710656]) =
   2050495727313879 / 549755813888"
proof -
  define xs :: "rat list" where "xs =
     [3078588577307689 / 4398046511104,
      5717416483970089 / 4398046511104,
      659662996200489 / 4398046511104,
      2638783926197289 / 4398046511104,
      5626684784446013 / 281474976710656,
      8442841926436127 / 140737488355328,
      6332483288547983 / 70368744177664,
      571702065978409 / 4398046511104,
      5628092159329567 / 140737488355328,
      7035467042882847 / 140737488355328,
      8438619801785467 / 562949953421312,
      7034059667999293 / 281474976710656,
      1319369972866089 / 4398046511104,
      4924404717552927 / 140737488355328,
      8441434551552573 / 281474976710656,
      703643461311529 / 4398046511104,
      7034059667999293 / 281474976710656]"
  note ev = xs_def fadd_def fsub_def double_eval2
  have "neumaier (3078588577307689 / 4398046511104) (0) (drop 1 xs) =
      neumaier (4398002530638889 / 2199023255552) (0) (drop 2 xs)"
    by (rule neumaier_step) (simp_all add: ev)
  also have "\<dots> =
      neumaier (2363917014369567 / 1099511627776) (- (1 / 4398046511104)) (drop 3 xs)"
    by (rule neumaier_step) (simp_all add: ev)
  also have "\<dots> =
      neumaier (3023612995918889 / 1099511627776) (0) (drop 4 xs)"
    by (rule neumaier_step) (simp_all add: ev)
  also have "\<dots> =
      neumaier (3045592233358131 / 1099511627776) (61 / 281474976710656) (drop 5 xs)"
    by (rule neumaier_step) (simp_all add: ev)
  also have "\<dots> =
      neumaier (3111551935908413 / 1099511627776) (123 / 281474976710656) (drop 6 xs)"
    by (rule neumaier_step) (simp_all add: ev)
  also have "\<dots> =
      neumaier (3210496987291975 / 1099511627776) (183 / 281474976710656) (drop 7 xs)"
    by (rule neumaier_step) (simp_all add: ev)
  also have "\<dots> =
      neumaier (3353422503786577 / 1099511627776) (247 / 281474976710656) (drop 8 xs)"
    by (rule neumaier_step) (simp_all add: ev)
  also have "\<dots> =
      neumaier (3397391973781339 / 1099511627776) (309 / 281474976710656) (drop 9 xs)"
    by (rule neumaier_step) (simp_all add: ev)
  also have "\<dots> =
      neumaier (3452356560053861 / 1099511627776) (371 / 281474976710656) (drop 10 xs)"
    by (rule neumaier_step) (simp_all add: ev)
  also have "\<dots> =
      neumaier (3468838239354223 / 1099511627776) (865 / 562949953421312) (drop 11 xs)"
    by (rule neumaier_step) (simp_all add: ev)
  also have "\<dots> =
      neumaier (3496315034932345 / 1099511627776) (987 / 562949953421312) (drop 12 xs)"
    by (rule neumaier_step) (simp_all add: ev)
  also have "\<dots> =
      neumaier (3826157528148867 / 1099511627776) (1115 / 562949953421312) (drop 13 xs)"
    by (rule neumaier_step) (simp_all add: ev)
  also have "\<dots> =
      neumaier (3864629440004749 / 1099511627776) (1239 / 562949953421312) (drop 14 xs)"
    by (rule neumaier_step) (simp_all add: ev)
  also have "\<dots> =
      neumaier (3897603793721751 / 1099511627776) (1361 / 562949953421312) (drop 15 xs)"
    by (rule neumaier_step) (simp_all add: ev)
  also have "\<dots> =
      neumaier (4073514659049633 / 1099511627776) (1489 / 562949953421312) (drop 16 xs)"
    by (rule neumaier_step) (simp_all add: ev)
  also have "\<dots> =
      neumaier (4100991454627755 / 1099511627776) (1611 / 562949953421312) (drop 17 xs)"
    by (rule neumaier_step) (simp_all add: ev)
  also have "\<dots> = 2050495727313879 / 549755813888"
    by (simp add: ev)
  finally show ?thesis
    unfolding xs_def .
qed

lemma seeded_sum_compensated:
  "py_sum From_3_12
     [float_lit (69999 / 100), float_lit (129999 / 100), float_lit (14999 / 100),
      float_lit (59999 / 100), float_lit (1999 / 100), float_lit (5999 / 100),
      float_lit (8999 / 100), float_lit (12999 / 100), float_lit (3999 / 100),
      float_lit (4999 / 100), float_lit (1499 / 100), float_lit (2499 / 100),
      float_lit (29999 / 100), float_lit (3499 / 100), float_lit (2999 / 100),
      float_lit (15999 / 100), float_lit (2499 / 100)] = 2050495727313879 / 549755813888"
  using neumaier_seed_prices [unfolded One_nat_def drop_Suc_Cons drop_0]
  by (simp add: py_sum_def seed_literal_values fadd_def double_eval del: neumaier.simps)

lemma seeded_avg:
  "round_double ((4100991454627755 / 1099511627776) / of_nat 17) =
     7719513326358127 / 35184372088832"
  "round_double ((2050495727313879 / 549755813888) / of_nat 17) =
     7719513326358133 / 35184372088832"
  by (simp_all add: double_eval)

section \<open>The report on a store without products\<close>

lemma report_to_average_empty:
  "products_table db = [] \<Longrightarrow>
     report_to_average py rest (Session db) = (Inl ZeroDivisionError, Session db)"
  by (simp add: report_to_average_def seq_def session_query_clean
      category_sections_clean py_truediv_def raise_def all_prices_def scan_products_def)

lemma report_from_extremes_queries:
  "\<exists>rest. report_from_extremes categories secs n_products n_categories average =
     seq (session_query first_price_desc) (\<lambda>most_expensive.
     seq (session_query first_price_asc) (rest most_expensive))"
  unfolding report_from_extremes_def by (rule exI) (rule refl)

text \<open>
  C3 (as stated, refuted). The claim has the statistics fail with a dedicated
  \<^verbatim>\<open>EmptyCatalogError\<close>, or follow a documented zero policy, instead of dividing by
  zero. On the freshly created file, with no product, line 160 divides
  \<^verbatim>\<open>sum(...)\<close>, which is 0, by \<^verbatim>\<open>len(average_price)\<close>, which is 0: on either
  interpreter the report ends in Python's \<^verbatim>\<open>ZeroDivisionError\<close>. No guard comes before
  the division.
\<close>

theorem report_on_empty_store_divides_by_zero:
  "fst (retrieve_and_display_data Before_3_12 (Session \<lparr>categories_table = [], products_table = []\<rparr>)) =
     Inl ZeroDivisionError \<and>
   fst (retrieve_and_display_data From_3_12 (Session \<lparr>categories_table = [], products_table = []\<rparr>)) =
     Inl ZeroDivisionError"
  by (simp add: retrieve_clean_empty)

text \<open>
  C3 (amended). On a store with zero products the report raises \<^verbatim>\<open>ZeroDivisionError\<close>
  at the division of line 160, whatever categories there are, and leaves the store as it
  was. The statements after that division are not run: the report is
  \<open>report_to_average\<close> (lines 120 to 160) continued by \<open>report_from_extremes\<close>, which
  begins with the two \<^verbatim>\<open>ORDER BY price\<close> queries of lines 163 and 166, and on such a
  store \<open>report_to_average\<close> ends in the same exception and the same store whatever
  continuation \<open>rest\<close> it is given. On a store with at least one product the report is
  produced.
\<close>

theorem report_zero_products:
  "(products_table db = [] \<longrightarrow>
      report_to_average py rest (Session db) = (Inl ZeroDivisionError, Session db) \<and>
      retrieve_and_display_data py (Session db) = (Inl ZeroDivisionError, Session db)) \<and>
   retrieve_and_display_data py = report_to_average py report_from_extremes \<and>
   (\<exists>rest'. report_from_extremes categories secs n_products n_categories average =
      seq (session_query first_price_desc) (\<lambda>most_expensive.
      seq (session_query first_price_asc) (rest' most_expensive))) \<and>
   (products_table db \<noteq> [] \<longrightarrow>
      (\<exists>r. retrieve_and_display_data py (Session db) = (Inr r, Session db)))"
  using report_from_extremes_queries [of categories secs n_products n_categories average]
  by (simp add: retrieve_clean_empty retrieve_clean_nonempty report_to_average_empty
      retrieve_and_display_data_def [symmetric])

theorem report_zero_products_witness:
  "report_to_average From_3_12 (\<lambda>categories secs n_products n_categories average.
       raise AttributeError :: report action)
     (Session \<lparr>categories_table = [\<lparr>category_id = 1, category_name = ''Books''\<rparr>],
               products_table = []\<rparr>) =
     (Inl ZeroDivisionError,
      Session \<lparr>categories_table = [\<lparr>category_id = 1, category_name = ''Books''\<rparr>],
               products_table = []\<rparr>) \<and>
   retrieve_and_display_data From_3_12
     (Session \<lparr>categories_table = [\<lparr>category_id = 1, category_name = ''Books''\<rparr>],
               products_table = []\<rparr>) =
     (Inl ZeroDivisionError,
      Session \<lparr>categories_table = [\<lparr>category_id = 1, category_name = ''Books''\<rparr>],
               products_table = []\<rparr>) \<and>
   (\<exists>r. retrieve_and_display_data From_3_12
     (Session \<lparr>categories_table = [\<lparr>category_id = 1, category_name = ''Books''\<rparr>],
               products_table = [\<lparr>product_id = 1, product_name = ''Atlas'', price = 5,
                                  product_category_id = 1\<rparr>]\<rparr>) =
     (Inr r,
      Session \<lparr>categories_table = [\<lparr>category_id = 1, category_name = ''Books''\<rparr>],
               products_table = [\<lparr>product_id = 1, product_name = ''Atlas'', price = 5,
                                  product_category_id = 1\<rparr>]\<rparr>))"
proof -
  define B0 where "B0 = \<lparr>categories_table = [\<lparr>category_id = 1, category_name = ''Books''\<rparr>],
               products_table = []\<rparr>"
  define B1 where "B1 = \<lparr>categories_table = [\<lparr>category_id = 1, category_name = ''Books''\<rparr>],
               products_table = [\<lparr>product_id = 1, product_name = ''Atlas'', price = 5,
                                  product_category_id = 1\<rparr>]\<rparr>"
  have empty: "products_table B0 = []" and nonempty: "products_table B1 \<noteq> []"
    by (simp_all add: B0_def B1_def)
  have "report_to_average From_3_12 (\<lambda>categories secs n_products n_categories average.
       raise AttributeError :: report action) (Session B0) =
     (Inl ZeroDivisionError, Session B0)"
    and "retrieve_and_display_data From_3_12 (Session B0) = (Inl ZeroDivisionError, Session B0)"
    using report_zero_products
          [of B0 From_3_12 "\<lambda>categories secs n_products n_categories average. raise AttributeError"]
      empty by blast+
  moreover have "\<exists>r. retrieve_and_display_data From_3_12 (Session B1) = (Inr r, Session B1)"
    using report_zero_products [of B1 From_3_12] nonempty by blast
  ultimately show ?thesis
    unfolding B0_def B1_def by blast
qed

section \<open>Seeding is idempotent\<close>

lemma seed_if_empty_populated:
  "categories_table db \<noteq> [] \<Longrightarrow> seed_if_empty (Session db) = (Inr (), Session db)"
  by (simp add: seed_if_empty_def seq_def session_query_clean count_categories_def
      scan_categories_def ok_def)

lemma seed_if_empty_unpopulated:
  "categories_table db = [] \<Longrightarrow> seed_if_empty (Session db) = populate_sample_data (Session db)"
  by (simp add: seed_if_empty_def seq_def session_query_clean count_categories_def
      scan_categories_def)

lemma seed_if_empty_result:
  "\<exists>db'. seed_if_empty (Session db) = (Inr (), Session db') \<and> categories_table db' \<noteq> [] \<and>
     (categories_table db \<noteq> [] \<longrightarrow> db' = db) \<and>
     (categories_table db = [] \<longrightarrow>
        length (categories_table db') = 5 \<and>
        length (products_table db') = length (products_table db) + 17)"
proof (cases "categories_table db = []")
  case True
  obtain ps where run: "populate_sample_data (Session db) =
           (Inr (), Session \<lparr>categories_table = seeded_categories,
                             products_table = products_table db @ ps\<rparr>)"
    and fields: "map (\<lambda>p. (product_name p, price p, product_category_id p)) ps =
           map (\<lambda>p. (product_name p, price p, product_category_id p)) seeded_products"
    using populate_sample_data_general [OF True] by blast
  have "length (map (\<lambda>p. (product_name p, price p, product_category_id p)) ps) = 17"
    unfolding fields by (simp add: seeded_products_def)
  then have "length ps = 17" by simp
  then show ?thesis
    using True run
    by (intro exI [of _ "\<lparr>categories_table = seeded_categories,
                           products_table = products_table db @ ps\<rparr>"])
       (simp add: seed_if_empty_unpopulated seeded_categories_def)
next
  case False
  then show ?thesis by (simp add: seed_if_empty_populated)
qed

text \<open>
  C2. For every store \<open>db\<close>, the seed-if-empty step (lines 199 to 205) succeeds and
  leaves a store \<open>once\<close> on which running the step again changes nothing: the second
  run returns the very same store, so the category and product row counts after two runs
  are those after one. When \<open>db\<close> already has a category the first run writes nothing
  either (\<open>once = db\<close>).
\<close>

theorem seed_if_empty_idempotent:
  "\<exists>once. seed_if_empty (Session db) = (Inr (), Session once) \<and>
     seed_if_empty (Session once) = (Inr (), Session once) \<and>
     length (categories_table (committed (snd (seed_if_empty (Session once))))) =
       length (categories_table once) \<and>
     length (products_table (committed (snd (seed_if_empty (Session once))))) =
       length (products_table once) \<and>
     (categories_table db \<noteq> [] \<longrightarrow> once = db)"
proof -
  obtain once where once: "seed_if_empty (Session db) = (Inr (), Session once)"
    and populated: "categories_table once \<noteq> []"
    and same: "categories_table db \<noteq> [] \<longrightarrow> once = db"
    using seed_if_empty_result [of db] by blast
  have again: "seed_if_empty (Session once) = (Inr (), Session once)"
    using populated by (rule seed_if_empty_populated)
  show ?thesis
    using once again same by (simp add: Session_def)
qed

theorem seed_if_empty_idempotent_witness:
  "categories_table seeded_database \<noteq> [] \<and>
   seed_if_empty (Session seeded_database) = (Inr (), Session seeded_database)"
  using seed_if_empty_idempotent [of seeded_database]
  by (auto simp: seeded_database_def seeded_categories_def)

section \<open>The report writes nothing\<close>

lemma session_flush_committed: "committed (snd (session_flush s)) = committed s"
  by (simp add: session_flush_def split: sum.splits prod.splits)

lemma seq_committed:
  assumes "\<And>s. committed (snd (m s)) = committed s"
    and "\<And>x s. committed (snd (f x s)) = committed s"
  shows "committed (snd (seq m f s)) = committed s"
proof (cases "m s")
  case (Pair r s')
  have s': "committed s' = committed s"
    using assms(1) [of s] Pair by simp
  show ?thesis
  proof (cases r)
    case (Inl e)
    then show ?thesis using Pair s' by (simp add: seq_def)
  next
    case (Inr x)
    then show ?thesis using Pair s' assms(2) [of x s'] by (simp add: seq_def)
  qed
qed

lemma session_query_committed: "committed (snd (session_query q s)) = committed s"
  unfolding session_query_def
  by (rule seq_committed) (simp_all add: session_flush_committed)

lemma category_sections_committed: "committed (snd (category_sections cs s)) = committed s"
proof (induction cs arbitrary: s)
  case Nil
  then show ?case by simp
next
  case (Cons c cs)
  obtain r s' where q: "session_query (products_filter_by (category_id c)) s = (r, s')"
    by (cases "session_query (products_filter_by (category_id c)) s")
  have s': "committed s' = committed s"
    using session_query_committed [of "products_filter_by (category_id c)" s] q by simp
  show ?case
  proof (cases r)
    case (Inl e)
    then show ?thesis using q s' by simp
  next
    case (Inr ps)
    obtain r2 s2 where rest: "category_sections cs s' = (r2, s2)"
      by (cases "category_sections cs s'")
    have "committed s2 = committed s'"
      using Cons.IH [of s'] rest by simp
    then show ?thesis
      using q Inr rest s' by (cases r2) simp_all
  qed
qed

lemma py_truediv_committed: "committed (snd (py_truediv a n s)) = committed s"
  by (simp add: py_truediv_def raise_def ok_def)

lemma attr_of_committed: "committed (snd (attr_of x s)) = committed s"
  by (cases x) (simp_all add: attr_of_def raise_def ok_def)

lemma ok_committed: "committed (snd (ok x s)) = committed s"
  by (simp add: ok_def)

lemma retrieve_committed: "committed (snd (retrieve_and_display_data py s)) = committed s"
  unfolding retrieve_and_display_data_def report_to_average_def report_from_extremes_def
  by (intro seq_committed session_query_committed category_sections_committed
      py_truediv_committed attr_of_committed ok_committed)

lemma retrieve_clean_session: "snd (retrieve_and_display_data py (Session db)) = Session db"
  by (cases "products_table db = []") (simp_all add: retrieve_clean_empty retrieve_clean_nonempty)

lemma main_file:
  "snd (main py file) = committed (snd (seed_if_empty (Session (create_database file))))"
proof -
  define s0 where "s0 = Session (create_database file)"
  obtain r1 s1 where seed: "seed_if_empty s0 = (r1, s1)"
    by (cases "seed_if_empty s0")
  show ?thesis
  proof (cases r1)
    case (Inl e)
    then show ?thesis
      using seed by (simp add: main_def Let_def seq_def s0_def [symmetric])
  next
    case (Inr u)
    obtain r2 s2 where rep: "retrieve_and_display_data py s1 = (r2, s2)"
      by (cases "retrieve_and_display_data py s1")
    have "committed s2 = committed s1"
      using retrieve_committed [of py s1] rep by simp
    then show ?thesis
      using seed Inr rep
      by (cases r2) (simp_all add: main_def Let_def seq_def s0_def [symmetric] session_close_def)
  qed
qed

text \<open>
  C10. \<open>retrieve_and_display_data py\<close>, run in a fresh session over any store \<open>db\<close>, leaves
  the session and both tables exactly as they were, whether the report is produced or
  ends in an exception. In any session \<open>s\<close> whatever, also one with pending objects that
  a query's autoflush would write, it commits nothing: the committed rows are unchanged.
  Hence the file a run of \<open>main\<close> leaves is the file as the seeding step left it.
\<close>

theorem report_performs_no_writes:
  "snd (retrieve_and_display_data py (Session db)) = Session db \<and>
   committed (snd (retrieve_and_display_data py s)) = committed s \<and>
   snd (main py file) = committed (snd (seed_if_empty (Session (create_database file))))"
  by (simp add: retrieve_clean_session retrieve_committed main_file)

section \<open>The category listing\<close>





section \<open>Referential integrity of the reachable stores\<close>

lemma seed_if_empty_fresh:
  "seed_if_empty (Session \<lparr>categories_table = [], products_table = []\<rparr>) =
     (Inr (), Session seeded_database)"
  by (simp add: seed_if_empty_unpopulated populate_sample_data_fresh)

lemma seed_if_empty_seeded:
  "seed_if_empty (Session seeded_database) = (Inr (), Session seeded_database)"
  by (rule seed_if_empty_populated) (simp add: seeded_database_def seeded_categories_def)

lemma committed_Session: "committed (Session db) = db"
  by (simp add: Session_def)

lemma reachable_cases:
  "reachable db \<Longrightarrow>
     db = \<lparr>categories_table = [], products_table = []\<rparr> \<or> db = seeded_database"
proof (induction rule: reachable.induct)
  case fresh
  then show ?case by (simp add: create_database_def)
next
  case (reopen db)
  then show ?case by (simp add: create_database_def)
next
  case (seed db)
  then show ?case
    by (auto simp: seed_if_empty_fresh seed_if_empty_seeded committed_Session)
next
  case (report db)
  then show ?case
    by (simp add: retrieve_clean_session committed_Session)
next
  case (run db)
  then show ?case
    by (auto simp: main_file create_database_def seed_if_empty_fresh seed_if_empty_seeded
        committed_Session)
qed

lemma seeded_integrity:
  "\<forall>p\<in>set seeded_products.
     length (filter (\<lambda>c. category_id c = product_category_id p) seeded_categories) = 1"
  by (simp add: seeded_products_def seeded_categories_def)

text \<open>
  C4. In every store this program can reach from no file by opening, seeding when empty
  and reporting, each row of \<^verbatim>\<open>products\<close> has exactly one row of \<^verbatim>\<open>categories\<close> whose
  \<open>category_id\<close> equals the product's \<^verbatim>\<open>category_id\<close>.
\<close>

theorem referential_integrity:
  "reachable db \<Longrightarrow>
     \<forall>p\<in>set (products_table db).
       length (filter (\<lambda>c. category_id c = product_category_id p) (categories_table db)) = 1"
  using reachable_cases [of db] seeded_integrity
  by (auto simp: seeded_database_def)

lemma reachable_seeded: "reachable seeded_database"
  using reachable.seed [OF reachable.fresh]
  by (simp add: create_database_def seed_if_empty_fresh committed_Session)

theorem referential_integrity_witness:
  "reachable seeded_database \<and>
   \<lparr>product_id = 11, product_name = ''Science Fiction Novel'', price = float_lit (1499 / 100),
     product_category_id = 3\<rparr> \<in> set (products_table seeded_database) \<and>
   length (filter (\<lambda>c. category_id c = 3) (categories_table seeded_database)) = 1"
proof -
  have r: "reachable seeded_database" by (rule reachable_seeded)
  have m: "\<lparr>product_id = 11, product_name = ''Science Fiction Novel'',
      price = float_lit (1499 / 100), product_category_id = 3\<rparr>
      \<in> set (products_table seeded_database)"
    by (simp add: seeded_database_def seeded_products_def)
  show ?thesis
    using r m referential_integrity [OF r, THEN bspec, OF m] by simp
qed

section \<open>The overall statistics of the seeded store\<close>

lemma seeded_products_not_Nil: "products_table seeded_database \<noteq> []"
  by (simp add: seeded_database_def seeded_products_def)

lemma main_fresh:
  "main py None = (fst (retrieve_and_display_data py (Session seeded_database)), seeded_database)"
  by (simp add: main_def Let_def create_database_def seq_def seed_if_empty_fresh
      retrieve_clean_nonempty [OF seeded_products_not_Nil] session_close_def committed_Session)

lemma seeded_count_products: "count_products seeded_database = 17"
  by (simp add: count_products_def scan_seeded_products) (simp add: seeded_products_def)

lemma seeded_count_categories: "count_categories seeded_database = 5"
  by (simp add: count_categories_def scan_seeded_categories) (simp add: seeded_categories_def)

lemma seeded_avg_price:
  "round_double (py_sum py (all_prices seeded_database) /
       of_nat (length (all_prices seeded_database))) =
     (case py of Before_3_12 \<Rightarrow> 7719513326358127 / 35184372088832
      | From_3_12 \<Rightarrow> 7719513326358133 / 35184372088832)"
  using seeded_avg
  by (cases py)
     (simp_all add: all_prices_def scan_seeded_products seeded_prices seeded_sum
       seeded_sum_compensated)

lemma seeded_first_price_desc:
  "first_price_desc seeded_database =
     Some \<lparr>product_id = 2, product_name = ''Laptop'', price = float_lit (129999 / 100),
           product_category_id = 1\<rparr>"
  by (simp add: first_price_desc_def scan_seeded_products first_row_def)
     (simp add: seeded_products_def seed_literal_values)

lemma seeded_first_price_asc:
  "first_price_asc seeded_database =
     Some \<lparr>product_id = 11, product_name = ''Science Fiction Novel'',
           price = float_lit (1499 / 100), product_category_id = 3\<rparr>"
  by (simp add: first_price_asc_def scan_seeded_products first_row_def)
     (simp add: seeded_products_def seed_literal_values)

lemma seeded_report:
  "fst (retrieve_and_display_data py (Session seeded_database)) =
     Inr \<lparr>listing = all_categories seeded_database,
           sections = map (\<lambda>c. (c, products_filter_by (category_id c) seeded_database,
                        total_value (products_filter_by (category_id c) seeded_database)))
                      (all_categories seeded_database),
           total_products = 17,
           total_categories = 5,
           avg_price =
             (case py of Before_3_12 \<Rightarrow> 7719513326358127 / 35184372088832
              | From_3_12 \<Rightarrow> 7719513326358133 / 35184372088832),
           most_expensive = \<lparr>product_id = 2, product_name = ''Laptop'',
             price = float_lit (129999 / 100), product_category_id = 1\<rparr>,
           least_expensive = \<lparr>product_id = 11, product_name = ''Science Fiction Novel'',
             price = float_lit (1499 / 100), product_category_id = 3\<rparr>,
           results = join_products_categories seeded_database\<rparr>"
  by (simp add: retrieve_clean_nonempty [OF seeded_products_not_Nil] seeded_count_products
      seeded_count_categories seeded_avg_price seeded_first_price_desc seeded_first_price_asc)

lemma seeded_unique_extremes:
  "filter (\<lambda>p. float_lit (129999 / 100) \<le> price p) seeded_products =
     [\<lparr>product_id = 2, product_name = ''Laptop'', price = float_lit (129999 / 100),
       product_category_id = 1\<rparr>]"
  "filter (\<lambda>p. price p \<le> float_lit (1499 / 100)) seeded_products =
     [\<lparr>product_id = 11, product_name = ''Science Fiction Novel'',
       price = float_lit (1499 / 100), product_category_id = 3\<rparr>]"
  by (simp_all add: seeded_products_def seed_literal_values)

text \<open>
  C1 (as stated, refuted). The claim puts the average price of the seeded store at about
  201.74. On either interpreter the program's average is more than 17 away from that
  value.
\<close>

theorem average_price_is_not_201_74:
  "\<not> isl (fst (main Before_3_12 None)) \<and>
   17 < \<bar>avg_price (projr (fst (main Before_3_12 None))) - 20174 / 100\<bar> \<and>
   \<not> isl (fst (main From_3_12 None)) \<and>
   17 < \<bar>avg_price (projr (fst (main From_3_12 None))) - 20174 / 100\<bar>"
  by (simp add: main_fresh seeded_report)

text \<open>
  C1 (amended). A run on no file seeds 5 categories and 17 products and reports
  \<open>total_products = 17\<close> and \<open>total_categories = 5\<close>. The average price is the float that
  line 160 computes from the 17 literal prices: \<open>7719513326358127 / 2^45\<close> where \<^verbatim>\<open>sum\<close>
  adds from the left (up to CPython 3.11), \<open>7719513326358133 / 2^45\<close> where it
  compensates (from CPython 3.12 on). Either is printed as 219.40 and lies within
  \<open>10^-12\<close> of the exact mean of the 17 literal prices,
  \<open>3729.83 / 17 = 372983 / 1700\<close>. The most expensive product is "Laptop" at 1299.99 and
  the least expensive is "Science Fiction Novel" at 14.99, and no other product shares
  either price.
\<close>

theorem overall_statistics_after_seeding:
  "\<exists>r. main py None = (Inr r, seeded_database) \<and>
     total_products r = 17 \<and> total_categories r = 5 \<and>
     avg_price r = (case py of Before_3_12 \<Rightarrow> 7719513326358127 / 35184372088832
                    | From_3_12 \<Rightarrow> 7719513326358133 / 35184372088832) \<and>
     \<bar>avg_price r - 372983 / 1700\<bar> < 1 / 10 ^ 12 \<and>
     (69999 + 129999 + 14999 + 59999 + 1999 + 5999 + 8999 + 12999 + 3999 + 4999 + 1499 +
      2499 + 29999 + 3499 + 2999 + 15999 + 2499) / (100 * 17) = (372983 / 1700 :: rat) \<and>
     most_expensive r =
       \<lparr>product_id = 2, product_name = ''Laptop'', price = float_lit (129999 / 100),
         product_category_id = 1\<rparr> \<and>
     filter (\<lambda>p. price (most_expensive r) \<le> price p) (products_table seeded_database) =
       [most_expensive r] \<and>
     least_expensive r =
       \<lparr>product_id = 11, product_name = ''Science Fiction Novel'',
         price = float_lit (1499 / 100), product_category_id = 3\<rparr> \<and>
     filter (\<lambda>p. price p \<le> price (least_expensive r)) (products_table seeded_database) =
       [least_expensive r]"
proof -
  have products: "products_table seeded_database = seeded_products"
    by (simp add: seeded_database_def)
  obtain r where r: "fst (retrieve_and_display_data py (Session seeded_database)) = Inr r"
    and "total_products r = 17" and "total_categories r = 5"
    and avg: "avg_price r = (case py of Before_3_12 \<Rightarrow> 7719513326358127 / 35184372088832
                    | From_3_12 \<Rightarrow> 7719513326358133 / 35184372088832)"
    and "most_expensive r = \<lparr>product_id = 2, product_name = ''Laptop'',
           price = float_lit (129999 / 100), product_category_id = 1\<rparr>"
    and "least_expensive r = \<lparr>product_id = 11, product_name = ''Science Fiction Novel'',
           price = float_lit (1499 / 100), product_category_id = 3\<rparr>"
    using seeded_report [of py] by simp
  have "\<bar>avg_price r - 372983 / 1700\<bar> < 1 / 10 ^ 12"
    unfolding avg by (cases py) simp_all
  with r avg show ?thesis
    using \<open>total_products r = 17\<close> \<open>total_categories r = 5\<close>
      \<open>most_expensive r = _\<close> \<open>least_expensive r = _\<close>
    by (intro exI [of _ r]) (simp add: main_fresh products seeded_unique_extremes)
qed

section \<open>Category totals\<close>

lemma seeded_electronics:
  "products_filter_by 1 seeded_database =
     [\<lparr>product_id = 1, product_name = ''Smartphone'', price = float_lit (69999 / 100),
        product_category_id = 1\<rparr>,
      \<lparr>product_id = 2, product_name = ''Laptop'', price = float_lit (129999 / 100),
        product_category_id = 1\<rparr>,
      \<lparr>product_id = 3, product_name = ''Wireless Headphones'', price = float_lit (14999 / 100),
        product_category_id = 1\<rparr>,
      \<lparr>product_id = 4, product_name = ''Smart TV'', price = float_lit (59999 / 100),
        product_category_id = 1\<rparr>]"
  by (simp add: products_filter_by_def scan_seeded_products) (simp add: seeded_products_def)

lemma electronics_sum:
  "fadd (fadd (fadd (fadd 0 (float_lit (69999 / 100))) (float_lit (129999 / 100)))
     (float_lit (14999 / 100))) (float_lit (59999 / 100)) = float_lit (274996 / 100)"
  by (simp add: fadd_def float_lit_def double_eval)

lemma retrieve_sections:
  assumes "fst (retrieve_and_display_data py (Session db)) = Inr r"
  shows "sections r =
     map (\<lambda>c. (c, products_filter_by (category_id c) db,
                total_value (products_filter_by (category_id c) db))) (all_categories db)"
proof (cases "products_table db = []")
  case True
  then show ?thesis using assms by (simp add: retrieve_clean_empty)
next
  case False
  then show ?thesis using assms by (auto simp: retrieve_clean_nonempty)
qed

text \<open>
  C8. A run on no file reports, for the category named "Electronics", its four products
  and the total value 2749.96: the loop's float sum
  \<^verbatim>\<open>0 + 699.99 + 1299.99 + 149.99 + 599.99\<close> is the float \<^verbatim>\<open>2749.96\<close>, and the four
  decimals add up to 2749.96 exactly. In the report on any store, a section holds the
  products whose \<^verbatim>\<open>category_id\<close> is the category's id and the sum of their prices, which
  is 0 for a category without products.
\<close>

theorem electronics_total_value:
  "(\<exists>r. main py None = (Inr r, seeded_database) \<and>
      find (\<lambda>(c, ps, t). category_name c = ''Electronics'') (sections r) =
        Some (\<lparr>category_id = 1, category_name = ''Electronics''\<rparr>,
              [\<lparr>product_id = 1, product_name = ''Smartphone'', price = float_lit (69999 / 100),
                 product_category_id = 1\<rparr>,
               \<lparr>product_id = 2, product_name = ''Laptop'', price = float_lit (129999 / 100),
                 product_category_id = 1\<rparr>,
               \<lparr>product_id = 3, product_name = ''Wireless Headphones'',
                 price = float_lit (14999 / 100), product_category_id = 1\<rparr>,
               \<lparr>product_id = 4, product_name = ''Smart TV'', price = float_lit (59999 / 100),
                 product_category_id = 1\<rparr>],
              float_lit (274996 / 100))) \<and>
   fadd (fadd (fadd (fadd 0 (float_lit (69999 / 100))) (float_lit (129999 / 100)))
     (float_lit (14999 / 100))) (float_lit (59999 / 100)) = float_lit (274996 / 100) \<and>
   69999 / 100 + 129999 / 100 + 14999 / 100 + 59999 / 100 = (274996 / 100 :: rat) \<and>
   (fst (retrieve_and_display_data py (Session db)) = Inr r' \<longrightarrow>
      (c, ps, t) \<in> set (sections r') \<longrightarrow>
      ps = products_filter_by (category_id c) db \<and> t = total_value ps \<and>
      (ps = [] \<longrightarrow> t = 0))"
proof -
  obtain r where r: "fst (retrieve_and_display_data py (Session seeded_database)) = Inr r"
    using seeded_report by simp
  have "find (\<lambda>(c, ps, t). category_name c = ''Electronics'') (sections r) =
      Some (\<lparr>category_id = 1, category_name = ''Electronics''\<rparr>,
            products_filter_by 1 seeded_database,
            total_value (products_filter_by 1 seeded_database))"
    by (simp add: retrieve_sections [OF r] all_categories_def scan_seeded_categories)
       (simp add: seeded_categories_def)
  moreover have "total_value (products_filter_by 1 seeded_database) = float_lit (274996 / 100)"
    unfolding seeded_electronics using electronics_sum by (simp add: total_value_def)
  ultimately have first: "\<exists>r. main py None = (Inr r, seeded_database) \<and>
      find (\<lambda>(c, ps, t). category_name c = ''Electronics'') (sections r) =
        Some (\<lparr>category_id = 1, category_name = ''Electronics''\<rparr>,
              products_filter_by 1 seeded_database, float_lit (274996 / 100))"
    using r by (intro exI [of _ r]) (simp add: main_fresh)
  have generic: "fst (retrieve_and_display_data py (Session db)) = Inr r' \<longrightarrow>
      (c, ps, t) \<in> set (sections r') \<longrightarrow>
      ps = products_filter_by (category_id c) db \<and> t = total_value ps \<and>
      (ps = [] \<longrightarrow> t = 0)"
    by (auto simp: retrieve_sections total_value_def)
  have exact: "69999 / 100 + 129999 / 100 + 14999 / 100 + 59999 / 100 = (274996 / 100 :: rat)"
    by simp
  note first' = first [unfolded seeded_electronics]
  show ?thesis
    by (intro conjI) (rule first' electronics_sum exact generic)+
qed

theorem electronics_total_value_witness:
  "\<exists>r'. fst (retrieve_and_display_data From_3_12
       (Session \<lparr>categories_table = [\<lparr>category_id = 1, category_name = ''Maps''\<rparr>,
                                    \<lparr>category_id = 2, category_name = ''Books''\<rparr>],
                 products_table = [\<lparr>product_id = 1, product_name = ''Atlas'', price = 5,
                                    product_category_id = 1\<rparr>]\<rparr>)) = Inr r' \<and>
     (\<lparr>category_id = 2, category_name = ''Books''\<rparr>, [], 0) \<in> set (sections r')"
proof -
  define db where "db = \<lparr>categories_table = [\<lparr>category_id = 1, category_name = ''Maps''\<rparr>,
                                    \<lparr>category_id = 2, category_name = ''Books''\<rparr>],
                 products_table = [\<lparr>product_id = 1, product_name = ''Atlas'', price = 5,
                                    product_category_id = 1\<rparr>]\<rparr>"
  define c where "c = \<lparr>category_id = 2, category_name = ''Books''\<rparr>"
  have "products_table db \<noteq> []" by (simp add: db_def)
  then obtain r' where r': "fst (retrieve_and_display_data From_3_12 (Session db)) = Inr r'"
    by (simp add: retrieve_clean_nonempty)
  have none: "products_filter_by (category_id c) db = []"
    by (simp add: products_filter_by_def scan_products_def db_def c_def)
  have "c \<in> set (all_categories db)"
    by (simp add: all_categories_def scan_categories_def db_def c_def)
  then have "(c, products_filter_by (category_id c) db,
       total_value (products_filter_by (category_id c) db)) \<in> set (sections r')"
    by (simp add: retrieve_sections [OF r'])
  then have mem: "(c, [], total_value []) \<in> set (sections r')"
    by (simp add: none)
  have "total_value [] = 0"
    using electronics_total_value [of From_3_12 db r' c "[]" "total_value []"] r' mem by simp
  then show ?thesis
    using r' mem by (intro exI [of _ r']) (simp add: db_def c_def)
qed

section \<open>The joined listing\<close>

lemma seeded_join:
  "map (\<lambda>(p, c). (product_name p, category_name c)) (join_products_categories seeded_database) =
     [(''Smartphone'', ''Electronics''), (''Laptop'', ''Electronics''),
      (''Wireless Headphones'', ''Electronics''), (''Smart TV'', ''Electronics''),
      (''T-Shirt'', ''Clothing''), (''Jeans'', ''Clothing''), (''Running Shoes'', ''Clothing''),
      (''Winter Jacket'', ''Clothing''), (''Python Programming Book'', ''Books''),
      (''Data Science Handbook'', ''Books''), (''Science Fiction Novel'', ''Books''),
      (''Garden Hose'', ''Home & Garden''), (''Lawn Mower'', ''Home & Garden''),
      (''Plant Pot Set'', ''Home & Garden''), (''Basketball'', ''Sports & Outdoors''),
      (''Camping Tent'', ''Sports & Outdoors''), (''Yoga Mat'', ''Sports & Outdoors'')]"
  "map fst (join_products_categories seeded_database) = seeded_products"
  "map (\<lambda>(p, c). category_id c) (join_products_categories seeded_database) =
     map (\<lambda>(p, c). product_category_id p) (join_products_categories seeded_database)"
  by (simp_all add: join_products_categories_def scan_seeded_products scan_seeded_categories)
     (simp_all add: seeded_products_def seeded_categories_def)

lemma join_iff:
  "(p, c) \<in> set (join_products_categories db) \<longleftrightarrow>
     p \<in> set (products_table db) \<and> c \<in> set (categories_table db) \<and>
     category_id c = product_category_id p"
  by (auto simp: join_products_categories_def scan_products_def scan_categories_def)

text \<open>
  C9. A run on no file reports a joined listing of exactly 17 pairs: the 17 products,
  each once, each paired with the category whose id equals the product's
  \<^verbatim>\<open>category_id\<close> ("Smartphone" with "Electronics", and so on). On any store the join
  holds the pair of a product row and a category row exactly when their ids match, so a
  product without a matching category is in no pair; the last conjunct is such a store.
\<close>

theorem joined_listing_after_seeding:
  "(\<exists>r. main py None = (Inr r, seeded_database) \<and>
      length (results r) = 17 \<and>
      map fst (results r) = products_table seeded_database \<and>
      map (\<lambda>(p, c). category_id c) (results r) =
        map (\<lambda>(p, c). product_category_id p) (results r) \<and>
      map (\<lambda>(p, c). (product_name p, category_name c)) (results r) =
       [(''Smartphone'', ''Electronics''), (''Laptop'', ''Electronics''),
        (''Wireless Headphones'', ''Electronics''), (''Smart TV'', ''Electronics''),
        (''T-Shirt'', ''Clothing''), (''Jeans'', ''Clothing''), (''Running Shoes'', ''Clothing''),
        (''Winter Jacket'', ''Clothing''), (''Python Programming Book'', ''Books''),
        (''Data Science Handbook'', ''Books''), (''Science Fiction Novel'', ''Books''),
        (''Garden Hose'', ''Home & Garden''), (''Lawn Mower'', ''Home & Garden''),
        (''Plant Pot Set'', ''Home & Garden''), (''Basketball'', ''Sports & Outdoors''),
        (''Camping Tent'', ''Sports & Outdoors''), (''Yoga Mat'', ''Sports & Outdoors'')]) \<and>
   ((p, c) \<in> set (join_products_categories db) \<longleftrightarrow>
      p \<in> set (products_table db) \<and> c \<in> set (categories_table db) \<and>
      category_id c = product_category_id p) \<and>
   join_products_categories
     \<lparr>categories_table = [\<lparr>category_id = 1, category_name = ''Maps''\<rparr>],
      products_table = [\<lparr>product_id = 1, product_name = ''Atlas'', price = 5,
                         product_category_id = 2\<rparr>]\<rparr> = []"
proof -
  obtain r where r: "fst (retrieve_and_display_data py (Session seeded_database)) = Inr r"
    and res: "results r = join_products_categories seeded_database"
    using seeded_report by simp
  have len: "length (results r) = 17"
    using arg_cong [OF seeded_join(2), of length]
    by (simp add: res) (simp add: seeded_products_def)
  have first: "\<exists>r. main py None = (Inr r, seeded_database) \<and>
      length (results r) = 17 \<and>
      map fst (results r) = products_table seeded_database \<and>
      map (\<lambda>(p, c). category_id c) (results r) =
        map (\<lambda>(p, c). product_category_id p) (results r) \<and>
      map (\<lambda>(p, c). (product_name p, category_name c)) (results r) =
       [(''Smartphone'', ''Electronics''), (''Laptop'', ''Electronics''),
        (''Wireless Headphones'', ''Electronics''), (''Smart TV'', ''Electronics''),
        (''T-Shirt'', ''Clothing''), (''Jeans'', ''Clothing''), (''Running Shoes'', ''Clothing''),
        (''Winter Jacket'', ''Clothing''), (''Python Programming Book'', ''Books''),
        (''Data Science Handbook'', ''Books''), (''Science Fiction Novel'', ''Books''),
        (''Garden Hose'', ''Home & Garden''), (''Lawn Mower'', ''Home & Garden''),
        (''Plant Pot Set'', ''Home & Garden''), (''Basketball'', ''Sports & Outdoors''),
        (''Camping Tent'', ''Sports & Outdoors''), (''Yoga Mat'', ''Sports & Outdoors'')]"
    using r len seeded_join
    by (intro exI [of _ r]) (simp add: main_fresh res seeded_database_def)
  have orphan: "join_products_categories
     \<lparr>categories_table = [\<lparr>category_id = 1, category_name = ''Maps''\<rparr>],
      products_table = [\<lparr>product_id = 1, product_name = ''Atlas'', price = 5,
                         product_category_id = 2\<rparr>]\<rparr> = []"
    by (simp add: join_products_categories_def scan_products_def scan_categories_def)
  show ?thesis
    by (intro conjI) (rule first join_iff orphan)+
qed

section \<open>The seeder's lookups and step order\<close>

lemma insert_categories_shape:
  "insert_categories names db = Inr (cs, db') \<Longrightarrow>
     db' = db\<lparr>categories_table := categories_table db @ cs\<rparr> \<and> map category_name cs = names"
proof (induction names arbitrary: db cs db')
  case Nil
  then show ?case by simp
next
  case (Cons n names)
  from Cons.prems have fresh: "n \<notin> set (map category_name (categories_table db))"
    by (auto split: if_splits)
  define category where "category = \<lparr>category_id = next_rowid (map category_id (categories_table db)),
      category_name = n\<rparr>"
  define db1 where "db1 = db\<lparr>categories_table := categories_table db @ [category]\<rparr>"
  from Cons.prems fresh obtain cs1 where rest: "insert_categories names db1 = Inr (cs1, db')"
    and cs: "cs = category # cs1"
    by (auto simp: Let_def category_def db1_def split: sum.splits)
  from Cons.IH [OF rest] show ?case
    by (simp add: cs db1_def category_def)
qed

lemma insert_categories_error: "insert_categories names db = Inl e \<Longrightarrow> e = IntegrityError"
proof (induction names arbitrary: db)
  case Nil
  then show ?case by simp
next
  case (Cons n names)
  then show ?case
    by (auto simp: Let_def split: if_splits sum.splits)
qed

lemma category_map_of_snoc:
  "category_map_of (cs @ [c]) = (category_map_of cs)(category_name c \<mapsto> c)"
  by (simp add: category_map_of_def)

lemma category_map_of_Some:
  "category_map_of cs k = Some c \<Longrightarrow> c \<in> set cs \<and> category_name c = k"
proof (induction cs rule: rev_induct)
  case Nil
  then show ?case by (simp add: category_map_of_def)
next
  case (snoc x xs)
  then show ?case by (auto simp: category_map_of_snoc split: if_splits)
qed

lemma dom_category_map_of: "dom (category_map_of cs) = set (map category_name cs)"
proof (induction cs rule: rev_induct)
  case Nil
  then show ?case by (simp add: category_map_of_def)
next
  case (snoc c cs)
  have "dom (category_map_of (cs @ [c])) = insert (category_name c) (dom (category_map_of cs))"
    unfolding category_map_of_snoc by simp
  then show ?case using snoc by simp
qed

lemma add_products_Inr:
  "add_products cm prods s = (Inr u, s') \<Longrightarrow>
     (\<forall>(n, pr, c)\<in>set prods. c \<in> dom cm) \<and>
     s' = s\<lparr>new_products := new_products s @
            map (\<lambda>(n, pr, c). (n, pr, category_id (the (cm c)))) prods\<rparr>"
proof (induction cm prods s rule: add_products.induct)
  case (1 cm s)
  then show ?case by simp
next
  case (2 cm n pr c rest s)
  from "2.prems" obtain cat where cat: "cm c = Some cat"
    by (cases "cm c") auto
  with "2.prems" have "add_products cm rest (session_add_product (n, pr, category_id cat) s)
      = (Inr u, s')" by simp
  from "2.IH" [OF cat this] show ?case
    using cat by (auto simp: session_add_product_def)
qed

lemma add_products_Inl:
  "add_products cm prods s = (Inl e, s') \<Longrightarrow>
     (\<exists>(n, pr, c)\<in>set prods. cm c = None \<and> e = KeyError c) \<and>
     committed s' = committed s \<and> working s' = working s \<and>
     new_categories s' = new_categories s"
proof (induction cm prods s rule: add_products.induct)
  case (1 cm s)
  then show ?case by simp
next
  case (2 cm n pr c rest s)
  show ?case
  proof (cases "cm c")
    case None
    with "2.prems" show ?thesis by auto
  next
    case (Some cat)
    with "2.prems" have "add_products cm rest (session_add_product (n, pr, category_id cat) s)
      = (Inl e, s')" by simp
    from "2.IH" [OF Some this] show ?thesis
      by (auto simp: session_add_product_def)
  qed
qed

lemma session_commit_cases:
  "session_commit s =
     (case insert_categories (new_categories s) (working s) of
        Inl e \<Rightarrow> (Inl e, s\<lparr>working := committed s, new_categories := [], new_products := []\<rparr>)
      | Inr (cs, db) \<Rightarrow>
          (Inr (cs, fst (insert_products (new_products s) db)),
           \<lparr>committed = snd (insert_products (new_products s) db),
            working = snd (insert_products (new_products s) db),
            new_categories = [], new_products = []\<rparr>))"
  by (simp add: session_commit_def session_flush_def split: sum.splits prod.splits)

lemma populate_categories_Inr:
  assumes "populate_categories names s = (Inr cats, s1)"
  shows "\<exists>cs. insert_categories (new_categories s @ names) (working s) =
            Inr (cs, (working s)\<lparr>categories_table := categories_table (working s) @ cs\<rparr>) \<and>
          cats = drop (length (new_categories s)) cs \<and>
          map category_name cats = names \<and>
          s1 = \<lparr>committed = snd (insert_products (new_products s)
                   ((working s)\<lparr>categories_table := categories_table (working s) @ cs\<rparr>)),
                working = snd (insert_products (new_products s)
                   ((working s)\<lparr>categories_table := categories_table (working s) @ cs\<rparr>)),
                new_categories = [], new_products = []\<rparr>"
proof (cases "insert_categories (new_categories s @ names) (working s)")
  case (Inl e)
  then show ?thesis
    using assms
    by (simp add: populate_categories_def fold_add_category seq_def session_commit_cases)
next
  case (Inr r)
  obtain cs db where r: "r = (cs, db)" by (cases r)
  have db: "db = (working s)\<lparr>categories_table := categories_table (working s) @ cs\<rparr>"
    and names: "map category_name cs = new_categories s @ names"
    using insert_categories_shape [OF Inr [unfolded r]] by simp_all
  have "map category_name (drop (length (new_categories s)) cs) = names"
    using arg_cong [OF names, of "drop (length (new_categories s))"] by (simp add: drop_map)
  then show ?thesis
    using assms Inr r db
    by (intro exI [of _ cs])
       (auto simp: populate_categories_def fold_add_category seq_def session_commit_cases ok_def)
qed

lemma populate_categories_Inl:
  assumes "populate_categories names s = (Inl e, s1)"
  shows "e = IntegrityError \<and> committed s1 = committed s \<and> new_products s1 = []"
proof (cases "insert_categories (new_categories s @ names) (working s)")
  case (Inl e')
  then show ?thesis
    using assms insert_categories_error [OF Inl]
    by (auto simp: populate_categories_def fold_add_category seq_def session_commit_cases)
next
  case (Inr r)
  then show ?thesis
    using assms
    by (auto simp: populate_categories_def fold_add_category seq_def session_commit_cases ok_def
        split: prod.splits)
qed

lemma populate_products_cases:
  assumes "new_categories s1 = []"
  shows "populate_products cats prods s1 =
     (case add_products (category_map_of cats) prods s1 of
        (Inl e, s2) \<Rightarrow> (Inl e, s2)
      | (Inr u, s2) \<Rightarrow>
          (Inr (),
           \<lparr>committed = snd (insert_products (new_products s2) (working s1)),
            working = snd (insert_products (new_products s2) (working s1)),
            new_categories = [], new_products = []\<rparr>))"
proof (cases "add_products (category_map_of cats) prods s1")
  case (Pair r s2)
  show ?thesis
  proof (cases r)
    case (Inl e)
    then show ?thesis using Pair by (simp add: populate_products_def seq_def)
  next
    case (Inr u)
    have "new_categories s2 = []" and "working s2 = working s1"
      using add_products_Inr [OF Pair [unfolded Inr]] assms by simp_all
    then show ?thesis
      using Pair Inr
      by (simp add: populate_products_def seq_def session_commit_cases ok_def)
  qed
qed

lemma populate_categories_pending:
  "populate_categories names s = (Inr cats, s1) \<Longrightarrow> new_categories s1 = []"
  using populate_categories_Inr [of names s cats s1] by auto

lemma populate_from_KeyError_iff:
  "(\<exists>k. fst (populate_from names prods s) = Inl (KeyError k)) \<longleftrightarrow>
     (\<exists>cats s1. populate_categories names s = (Inr cats, s1) \<and>
        (\<exists>(n, pr, c)\<in>set prods. category_map_of cats c = None))"
proof
  assume "\<exists>k. fst (populate_from names prods s) = Inl (KeyError k)"
  then obtain k where k: "fst (populate_from names prods s) = Inl (KeyError k)" ..
  obtain r s1 where pc: "populate_categories names s = (r, s1)"
    by (cases "populate_categories names s")
  show "\<exists>cats s1. populate_categories names s = (Inr cats, s1) \<and>
        (\<exists>(n, pr, c)\<in>set prods. category_map_of cats c = None)"
  proof (cases r)
    case (Inl e)
    then have "e = IntegrityError"
      using populate_categories_Inl [of names s e s1] pc by simp
    then show ?thesis
      using k pc Inl by (simp add: populate_from_def seq_def)
  next
    case (Inr cats)
    have pending: "new_categories s1 = []"
      using populate_categories_pending pc Inr by blast
    obtain r2 s2 where ap: "add_products (category_map_of cats) prods s1 = (r2, s2)"
      by (cases "add_products (category_map_of cats) prods s1")
    show ?thesis
    proof (cases r2)
      case (Inl e)
      then have "\<exists>(n, pr, c)\<in>set prods. category_map_of cats c = None"
        using add_products_Inl [of "category_map_of cats" prods s1 e s2] ap by auto
      then show ?thesis using pc Inr by blast
    next
      case (Inr u)
      then show ?thesis
        using k pc \<open>r = Inr cats\<close> ap
        by (simp add: populate_from_def seq_def populate_products_cases [OF pending])
    qed
  qed
next
  assume "\<exists>cats s1. populate_categories names s = (Inr cats, s1) \<and>
        (\<exists>(n, pr, c)\<in>set prods. category_map_of cats c = None)"
  then obtain cats s1 where pc: "populate_categories names s = (Inr cats, s1)"
    and missing: "\<exists>(n, pr, c)\<in>set prods. category_map_of cats c = None"
    by blast
  have pending: "new_categories s1 = []"
    using populate_categories_pending pc by blast
  obtain r2 s2 where ap: "add_products (category_map_of cats) prods s1 = (r2, s2)"
    by (cases "add_products (category_map_of cats) prods s1")
  show "\<exists>k. fst (populate_from names prods s) = Inl (KeyError k)"
  proof (cases r2)
    case (Inl e)
    then obtain k where "e = KeyError k"
      using add_products_Inl [of "category_map_of cats" prods s1 e s2] ap by auto
    then show ?thesis
      using pc ap Inl
      by (simp add: populate_from_def seq_def populate_products_cases [OF pending])
  next
    case (Inr u)
    then have "\<forall>(n, pr, c)\<in>set prods. c \<in> dom (category_map_of cats)"
      using add_products_Inr [of "category_map_of cats" prods s1 u s2] ap by simp
    then show ?thesis using missing by (auto simp: dom_def)
  qed
qed

lemma seed_names_known: "\<forall>(n, pr, c)\<in>set products_data. c \<in> set categories_data"
  by (simp add: products_data_def categories_data_def)

lemma seed_lookup_found:
  assumes "populate_categories categories_data s = (Inr cats, s1)"
  shows "\<forall>(n, pr, c)\<in>set products_data. c \<in> dom (category_map_of cats)"
proof -
  have "map category_name cats = categories_data"
    using populate_categories_Inr [OF assms] by auto
  then have "dom (category_map_of cats) = set categories_data"
    by (simp add: dom_category_map_of)
  then show ?thesis using seed_names_known by simp
qed

text \<open>
  C6. In any session, once the categories of the fixed list are committed, every category
  name in the fixed product list is a key of the dict built from them, and
  \<open>populate_sample_data\<close> never raises \<^verbatim>\<open>KeyError\<close>, the lookup failure of line 112 (the
  spec's SeedIntegrityError). For any two lists in place of the literals, the seeder
  raises \<^verbatim>\<open>KeyError\<close> exactly when the category commit went through and some product
  names a category that is no key of the dict.
\<close>

theorem seed_lookup_never_fails:
  "(populate_categories categories_data s = (Inr cats, s1) \<longrightarrow>
      (\<forall>(n, pr, c)\<in>set products_data. c \<in> dom (category_map_of cats))) \<and>
   (\<forall>k. fst (populate_sample_data s) \<noteq> Inl (KeyError k)) \<and>
   ((\<exists>k. fst (populate_from names prods s) = Inl (KeyError k)) \<longleftrightarrow>
      (\<exists>cats' s1'. populate_categories names s = (Inr cats', s1') \<and>
         (\<exists>(n, pr, c)\<in>set prods. category_map_of cats' c = None)))"
proof (intro conjI)
  show "populate_categories categories_data s = (Inr cats, s1) \<longrightarrow>
      (\<forall>(n, pr, c)\<in>set products_data. c \<in> dom (category_map_of cats))"
    using seed_lookup_found by blast
  show "\<forall>k. fst (populate_sample_data s) \<noteq> Inl (KeyError k)"
  proof (intro allI notI)
    fix k
    assume "fst (populate_sample_data s) = Inl (KeyError k)"
    then have "\<exists>k. fst (populate_from categories_data products_data s) = Inl (KeyError k)"
      by (auto simp: populate_sample_data_def)
    then obtain cats' s1' where pc: "populate_categories categories_data s = (Inr cats', s1')"
      and missing: "\<exists>(n, pr, c)\<in>set products_data. category_map_of cats' c = None"
      unfolding populate_from_KeyError_iff by blast
    show False
      using seed_lookup_found [OF pc] missing by (auto simp: dom_def)
  qed
  show "(\<exists>k. fst (populate_from names prods s) = Inl (KeyError k)) \<longleftrightarrow>
      (\<exists>cats' s1'. populate_categories names s = (Inr cats', s1') \<and>
         (\<exists>(n, pr, c)\<in>set prods. category_map_of cats' c = None))"
    by (rule populate_from_KeyError_iff)
qed

theorem seed_lookup_never_fails_witness:
  "populate_categories categories_data (Session \<lparr>categories_table = [], products_table = []\<rparr>) =
     (Inr seeded_categories,
      Session \<lparr>categories_table = seeded_categories, products_table = []\<rparr>) \<and>
   ''Electronics'' \<in> dom (category_map_of seeded_categories) \<and>
   (\<exists>k. fst (populate_from [''Maps''] [(''Atlas'', 5, ''Books'')]
             (Session \<lparr>categories_table = [], products_table = []\<rparr>)) = Inl (KeyError k))"
proof -
  define E where "E = \<lparr>categories_table = [], products_table = []\<rparr>"
  have pc: "populate_categories categories_data (Session E) =
     (Inr seeded_categories, Session \<lparr>categories_table = seeded_categories, products_table = []\<rparr>)"
    by (simp add: populate_categories_seed E_def)
  have mem: "(''Smartphone'', float_lit (69999 / 100), ''Electronics'') \<in> set products_data"
    by (simp add: products_data_def)
  have maps: "populate_categories [''Maps''] (Session E) =
     (Inr [\<lparr>category_id = 1, category_name = ''Maps''\<rparr>],
      Session \<lparr>categories_table = [\<lparr>category_id = 1, category_name = ''Maps''\<rparr>],
               products_table = []\<rparr>)"
    by (simp add: populate_categories_def session_add_category_def seq_def
        session_commit_cases Session_def next_rowid_def ok_def E_def Let_def)
  have missing: "\<exists>(n, pr, c)\<in>set [(''Atlas'', 5::rat, ''Books'')].
      category_map_of [\<lparr>category_id = 1, category_name = ''Maps''\<rparr>] c = None"
    by (simp add: category_map_of_def)
  note inst = seed_lookup_never_fails
    [of "Session E" seeded_categories
      "Session \<lparr>categories_table = seeded_categories, products_table = []\<rparr>"
      "[''Maps'']" "[(''Atlas'', 5, ''Books'')]"]
  have found: "''Electronics'' \<in> dom (category_map_of seeded_categories)"
    using inst pc mem by blast
  have raised: "\<exists>k. fst (populate_from [''Maps''] [(''Atlas'', 5, ''Books'')] (Session E)) =
      Inl (KeyError k)"
    using inst maps missing by blast
  show ?thesis
    using pc found raised by (simp add: E_def)
qed

text \<open>
  C7. Seeding a store \<open>db\<close> in a fresh session: when the commit of line 79 succeeds, the
  state \<open>s1\<close> right after it has every new category row, with its id, in the committed
  store, nothing pending and the products table untouched; the rest of the function is
  the product phase, started in \<open>s1\<close> with those rows (\<open>cats\<close>), and every product
  it writes carries the id of one of them. When that commit fails, the function ends with
  its exception, the store is unchanged and no product is constructed.
\<close>

theorem categories_committed_before_products:
  "(populate_categories names (Session db) = (Inr cats, s1) \<longrightarrow>
      s1 = Session (db\<lparr>categories_table := categories_table db @ cats\<rparr>) \<and>
      map category_name cats = names \<and>
      populate_from names prods (Session db) = populate_products cats prods s1 \<and>
      (populate_products cats prods s1 = (Inr (), s2) \<longrightarrow>
         (\<exists>ps. s2 = Session (db\<lparr>categories_table := categories_table db @ cats,
                                products_table := products_table db @ ps\<rparr>) \<and>
               length ps = length prods \<and>
               (\<forall>p\<in>set ps. product_category_id p \<in> category_id ` set cats)))) \<and>
   (populate_categories names (Session db) = (Inl e, s1) \<longrightarrow>
      populate_from names prods (Session db) = (Inl e, s1) \<and> s1 = Session db)"
proof (intro conjI impI)
  assume pc: "populate_categories names (Session db) = (Inr cats, s1)"
  from populate_categories_Inr [OF pc]
  show s1: "s1 = Session (db\<lparr>categories_table := categories_table db @ cats\<rparr>)"
    by (auto simp: Session_def)
  from populate_categories_Inr [OF pc]
  show "map category_name cats = names" by auto
  show "populate_from names prods (Session db) = populate_products cats prods s1"
    using pc by (simp add: populate_from_def seq_def)
  assume pp: "populate_products cats prods s1 = (Inr (), s2)"
  have pending: "new_categories s1 = []" and unadded: "new_products s1 = []"
    and w1: "working s1 = db\<lparr>categories_table := categories_table db @ cats\<rparr>"
    by (simp_all add: s1 Session_def)
  obtain r s' where ap: "add_products (category_map_of cats) prods s1 = (r, s')"
    by (cases "add_products (category_map_of cats) prods s1")
  obtain u where r: "r = Inr u"
    using pp ap by (cases r) (simp_all add: populate_products_cases [OF pending])
  have known: "\<forall>(n, pr, c)\<in>set prods. c \<in> dom (category_map_of cats)"
    and added: "s' = s1\<lparr>new_products := new_products s1 @
       map (\<lambda>(n, pr, c). (n, pr, category_id (the (category_map_of cats c)))) prods\<rparr>"
    using add_products_Inr [OF ap [unfolded r]] by blast+
  have s': "new_products s' =
       map (\<lambda>(n, pr, c). (n, pr, category_id (the (category_map_of cats c)))) prods"
    unfolding added by (simp add: unadded)
  obtain ps db2 where ins: "insert_products (new_products s') (working s1) = (ps, db2)"
    by (cases "insert_products (new_products s') (working s1)")
  have db2: "db2 = (working s1)\<lparr>products_table := products_table (working s1) @ ps\<rparr>"
    and fields: "map (\<lambda>p. (product_name p, price p, product_category_id p)) ps = new_products s'"
    using insert_products_shape [OF ins] by simp_all
  have s2: "s2 = Session db2"
    using pp ap r ins by (simp add: populate_products_cases [OF pending] Session_def)
  have len: "length ps = length prods"
    using arg_cong [OF fields, of length] by (simp add: s')
  have ids: "map product_category_id ps =
      map (\<lambda>(n, pr, c). category_id (the (category_map_of cats c))) prods"
    using arg_cong [OF fields, of "map (\<lambda>x. snd (snd x))"]
    by (simp add: s' comp_def case_prod_beta)
  have "\<forall>x\<in>set prods. (\<lambda>(n, pr, c). category_id (the (category_map_of cats c))) x
      \<in> category_id ` set cats"
  proof
    fix x assume x: "x \<in> set prods"
    obtain n pr c where xe: "x = (n, pr, c)" by (cases x)
    then obtain cat where "category_map_of cats c = Some cat"
      using known x by auto
    then show "(\<lambda>(n, pr, c). category_id (the (category_map_of cats c))) x
        \<in> category_id ` set cats"
      using category_map_of_Some [of cats c cat] by (simp add: xe)
  qed
  then have "set (map product_category_id ps) \<subseteq> category_id ` set cats"
    unfolding ids by auto
  then have refs: "\<forall>p\<in>set ps. product_category_id p \<in> category_id ` set cats"
    by auto
  show "\<exists>ps. s2 = Session (db\<lparr>categories_table := categories_table db @ cats,
                                products_table := products_table db @ ps\<rparr>) \<and>
               length ps = length prods \<and>
               (\<forall>p\<in>set ps. product_category_id p \<in> category_id ` set cats)"
    using s2 db2 w1 len refs by (intro exI [of _ ps]) simp
next
  assume pc: "populate_categories names (Session db) = (Inl e, s1)"
  show "populate_from names prods (Session db) = (Inl e, s1)"
    using pc by (simp add: populate_from_def seq_def)
  show "s1 = Session db"
    using pc
    by (auto simp: populate_categories_def fold_add_category seq_def session_commit_cases
        Session_def ok_def split: sum.splits prod.splits)
qed

theorem categories_committed_before_products_witness:
  "populate_categories categories_data (Session \<lparr>categories_table = [], products_table = []\<rparr>) =
     (Inr seeded_categories,
      Session \<lparr>categories_table = seeded_categories, products_table = []\<rparr>) \<and>
   populate_products seeded_categories products_data
       (Session \<lparr>categories_table = seeded_categories, products_table = []\<rparr>) =
     (Inr (), Session seeded_database) \<and>
   set (map product_category_id (products_table seeded_database)) \<subseteq>
     category_id ` set seeded_categories \<and>
   populate_categories categories_data
       (Session \<lparr>categories_table = [\<lparr>category_id = 7, category_name = ''Books''\<rparr>],
                 products_table = []\<rparr>) =
     (Inl IntegrityError,
      Session \<lparr>categories_table = [\<lparr>category_id = 7, category_name = ''Books''\<rparr>],
               products_table = []\<rparr>) \<and>
   populate_sample_data
       (Session \<lparr>categories_table = [\<lparr>category_id = 7, category_name = ''Books''\<rparr>],
                 products_table = []\<rparr>) =
     (Inl IntegrityError,
      Session \<lparr>categories_table = [\<lparr>category_id = 7, category_name = ''Books''\<rparr>],
               products_table = []\<rparr>)"
proof -
  define E where "E = \<lparr>categories_table = [], products_table = []\<rparr>"
  define S1 where "S1 = Session \<lparr>categories_table = seeded_categories, products_table = []\<rparr>"
  define B where "B = \<lparr>categories_table = [\<lparr>category_id = 7, category_name = ''Books''\<rparr>],
                        products_table = []\<rparr>"
  have pc: "populate_categories categories_data (Session E) = (Inr seeded_categories, S1)"
    by (simp add: populate_categories_seed E_def S1_def)
  note inst = categories_committed_before_products
    [where names = categories_data and db = E and cats = seeded_categories and ?s1.0 = S1
      and prods = products_data and ?s2.0 = "Session seeded_database"]
  have "populate_from categories_data products_data (Session E) =
      populate_products seeded_categories products_data S1"
    using inst pc by blast
  then have pp: "populate_products seeded_categories products_data S1 =
      (Inr (), Session seeded_database)"
    using populate_sample_data_fresh by (simp add: populate_sample_data_def E_def)
  then obtain ps where ps: "Session seeded_database =
      Session (E\<lparr>categories_table := categories_table E @ seeded_categories,
                 products_table := products_table E @ ps\<rparr>)"
    and refs: "\<forall>p\<in>set ps. product_category_id p \<in> category_id ` set seeded_categories"
    using inst pc by blast
  have "seeded_database = \<lparr>categories_table = seeded_categories, products_table = ps\<rparr>"
    using arg_cong [OF ps, of committed] by (simp add: committed_Session E_def)
  then have "products_table seeded_database =
      products_table \<lparr>categories_table = seeded_categories, products_table = ps\<rparr>"
    by (rule arg_cong)
  then have "products_table seeded_database = ps"
    by simp
  then have sub: "set (map product_category_id (products_table seeded_database)) \<subseteq>
     category_id ` set seeded_categories"
    using refs by auto
  have dup: "populate_categories categories_data (Session B) = (Inl IntegrityError, Session B)"
    by (simp add: populate_categories_def fold_add_category seq_def session_commit_cases
        Session_def)
       (simp add: categories_data_def next_rowid_def Let_def B_def)
  have "populate_from categories_data products_data (Session B) =
      (Inl IntegrityError, Session B)"
    using categories_committed_before_products
      [where names = categories_data and db = B and ?s1.0 = "Session B"
        and e = IntegrityError and prods = products_data] dup
    by blast
  then have again: "populate_sample_data (Session B) = (Inl IntegrityError, Session B)"
    by (simp add: populate_sample_data_def)
  show ?thesis
    using pc pp sub dup again by (simp add: E_def S1_def B_def)
qed

end
